theory Spec2Isabelle
  imports Complex_Main
begin

section \<open>Data model\<close>

text \<open>
  The scenario scripts are Python on top of the CARLA client library. Python floats are
  modelled as real numbers (exact arithmetic, \<open>** 0.5\<close> as the real square root), Python
  integers as \<open>int\<close>. An exception is a value \<open>Inl e\<close> of the result type.
\<close>

datatype py_error = ZeroDivisionError | IndexError

text \<open>\<open>carla.Location\<close> and \<open>carla.Vector3D\<close>: the three attributes \<open>x\<close>, \<open>y\<close>, \<open>z\<close>.\<close>

record vec3 =
  vec_x :: real
  vec_y :: real
  vec_z :: real

text \<open>\<open>carla.WalkerControl\<close>.\<close>

record walker_control =
  direction :: vec3
  speed :: real
  jump :: bool

text \<open>
  What the simulator reports for one actor when the script asks:
  \<open>get_transform().location\<close>, \<open>get_transform().rotation\<close> (pitch, yaw, roll),
  \<open>get_transform().get_forward_vector()\<close>, \<open>get_velocity()\<close> and \<open>get_control()\<close>.
\<close>

record actor =
  location :: vec3
  pitch :: real
  yaw :: real
  roll :: real
  forward_vector :: vec3
  velocity :: vec3
  control :: walker_control

text \<open>
  A trigger area is a list of two \<open>(x, y)\<close> tuples in the source; it is modelled as a pair
  of points, \<open>fst\<close> for index 0 and \<open>snd\<close> for index 1.
\<close>

type_synonym point = "real \<times> real"
type_synonym trigger = "point \<times> point"

section \<open>checks.py\<close>

text \<open>Python's \<open>/\<close> on floats raises on a zero divisor.\<close>

definition py_truediv :: "real \<Rightarrow> real \<Rightarrow> py_error + real" where
  "py_truediv a b = (if b = 0 then Inl ZeroDivisionError else Inr (a / b))"

definition is_inside_bounding_box :: "vec3 \<Rightarrow> point \<Rightarrow> point \<Rightarrow> bool" where
  "is_inside_bounding_box vehicle_location bbox_min bbox_max =
     (min (fst bbox_min) (fst bbox_max) \<le> vec_x vehicle_location \<and>
      vec_x vehicle_location \<le> max (fst bbox_min) (fst bbox_max) \<and>
      min (snd bbox_min) (snd bbox_max) \<le> vec_y vehicle_location \<and>
      vec_y vehicle_location \<le> max (snd bbox_min) (snd bbox_max))"

definition norm3 :: "vec3 \<Rightarrow> real" where
  "norm3 v = sqrt ((vec_x v)\<^sup>2 + (vec_y v)\<^sup>2 + (vec_z v)\<^sup>2)"

definition get_vehicle_speed :: "actor \<Rightarrow> real" where
  "get_vehicle_speed vehicle = norm3 (velocity vehicle)"

definition update_trigger_points :: "trigger \<Rightarrow> real \<Rightarrow> bool \<Rightarrow> bool \<Rightarrow> trigger" where
  "update_trigger_points trigger_points actor_speed add_speed add_to_x =
     (if add_speed then
        (if add_to_x then
           ((fst (fst trigger_points) + actor_speed, snd (fst trigger_points)),
            (fst (snd trigger_points) + actor_speed, snd (snd trigger_points)))
         else
           ((fst (fst trigger_points), snd (fst trigger_points) + actor_speed),
            (fst (snd trigger_points), snd (snd trigger_points) + actor_speed)))
      else
        (if add_to_x then
           ((fst (fst trigger_points) - actor_speed, snd (fst trigger_points)),
            (fst (snd trigger_points) - actor_speed, snd (snd trigger_points)))
         else
           ((fst (fst trigger_points), snd (fst trigger_points) - actor_speed),
            (fst (snd trigger_points), snd (snd trigger_points) - actor_speed))))"

definition adjust_car_location :: "vec3 \<Rightarrow> actor \<Rightarrow> real \<Rightarrow> vec3" where
  "adjust_car_location car_location car_transform bumper_offset =
     car_location
       \<lparr> vec_x := vec_x car_location + vec_x (forward_vector car_transform) * bumper_offset,
         vec_y := vec_y car_location + vec_y (forward_vector car_transform) * bumper_offset,
         vec_z := vec_z car_location + vec_z (forward_vector car_transform) * bumper_offset \<rparr>"

text \<open>
  The two branches of the source set \<open>distance_to_pedestrian_path\<close>, \<open>time_to_intersect\<close>
  and \<open>distance_to_intersect\<close>; the last division comes after the branch.
\<close>

definition calculate_required_speed :: "vec3 \<Rightarrow> vec3 \<Rightarrow> vec3 \<Rightarrow> vec3 \<Rightarrow> py_error + real" where
  "calculate_required_speed car_location car_velocity pedestrian_location pedestrian_direction =
     (let car_speed = norm3 car_velocity in
      if car_speed < 0.1 then Inr 0
      else
        (let distance_to_pedestrian_path =
               (if vec_x pedestrian_direction \<noteq> 0
                then \<bar>vec_y car_location - vec_y pedestrian_location\<bar>
                else \<bar>vec_x car_location - vec_x pedestrian_location\<bar>);
             distance_to_intersect =
               (if vec_x pedestrian_direction \<noteq> 0
                then \<bar>vec_x car_location - vec_x pedestrian_location\<bar>
                else \<bar>vec_y car_location - vec_y pedestrian_location\<bar>)
         in case py_truediv distance_to_pedestrian_path car_speed of
              Inl e \<Rightarrow> Inl e
            | Inr time_to_intersect \<Rightarrow> py_truediv distance_to_intersect time_to_intersect))"

text \<open>
  \<open>adjust_pedestrian_velocity\<close> reads the ego vehicle and the pedestrian, and applies one
  walker control to the pedestrian; the model returns that control. The default
  \<open>bumper_offset\<close> of \<open>adjust_car_location\<close> is 2.0.
\<close>

definition adjust_pedestrian_velocity :: "actor \<Rightarrow> actor \<Rightarrow> py_error + walker_control" where
  "adjust_pedestrian_velocity ego_vehicle pedestrian =
     (let car_location = location ego_vehicle;
          car_velocity = velocity ego_vehicle;
          pedestrian_location = location pedestrian;
          walker_control = control pedestrian;
          pedestrian_direction = direction walker_control;
          adjusted_car_location = adjust_car_location car_location ego_vehicle 2.0
      in case calculate_required_speed adjusted_car_location car_velocity
                pedestrian_location pedestrian_direction of
           Inl e \<Rightarrow> Inl e
         | Inr required_speed \<Rightarrow>
             Inr (walker_control
                    \<lparr> speed := (if required_speed < 0.1 then 0.1 else required_speed) \<rparr>))"

text \<open>
  The speed the specification gives for the solver: 0 for a car slower than 0.1, else the
  offset along the travel axis divided by (the offset along the other axis divided by the
  car's speed), the travel axis being x when the direction's x-component is nonzero.
\<close>

definition travel_offset :: "vec3 \<Rightarrow> vec3 \<Rightarrow> vec3 \<Rightarrow> real" where
  "travel_offset car_location pedestrian_location pedestrian_direction =
     (if vec_x pedestrian_direction \<noteq> 0
      then \<bar>vec_x car_location - vec_x pedestrian_location\<bar>
      else \<bar>vec_y car_location - vec_y pedestrian_location\<bar>)"

definition cross_offset :: "vec3 \<Rightarrow> vec3 \<Rightarrow> vec3 \<Rightarrow> real" where
  "cross_offset car_location pedestrian_location pedestrian_direction =
     (if vec_x pedestrian_direction \<noteq> 0
      then \<bar>vec_y car_location - vec_y pedestrian_location\<bar>
      else \<bar>vec_x car_location - vec_x pedestrian_location\<bar>)"

definition spec_required_speed :: "vec3 \<Rightarrow> vec3 \<Rightarrow> vec3 \<Rightarrow> vec3 \<Rightarrow> real" where
  "spec_required_speed car_location car_velocity pedestrian_location pedestrian_direction =
     (if norm3 car_velocity < 0.1 then 0
      else travel_offset car_location pedestrian_location pedestrian_direction /
           (cross_offset car_location pedestrian_location pedestrian_direction /
            norm3 car_velocity))"

section \<open>The simulator as the scenarios see it\<close>

text \<open>
  An actor handle is a number; \<open>world.spawn_actor\<close> hands out the next free one. A scenario
  reads the current state of an actor through its handle (\<open>get_transform\<close>, \<open>get_location\<close>,
  \<open>get_control\<close>); the simulator's state at one tick is a function from handles to actor
  states. What a scenario sends to the simulator or prints is collected as a list of
  commands, in the order of the calls.
\<close>

type_synonym actor_id = nat
type_synonym sim = "actor_id \<Rightarrow> actor"

record world =
  next_id :: actor_id
  fixed_delta_seconds :: real

datatype light = Position | LowBeam | Fog | Interior | Reverse | Brake | RightBlinker
  | LeftBlinker | Special1

datatype command =
    Print string
  | PrintF string int
  | ApplyVehicleControl actor_id real real real bool bool
  | ApplyWalkerControl actor_id walker_control
  | SetTransform actor_id vec3 real real real
  | SetLightState actor_id "light list"
  | SetSimulatePhysics actor_id bool
  | AddImpulse actor_id vec3
  | SensorStop actor_id
  | DestroyActor actor_id

text \<open>
  The result of one call of a method: the value returned or the exception raised, the
  object after the call (attributes assigned before a raise stay assigned), and the
  commands issued.
\<close>

record 's tick_result =
  ret :: "py_error + int"
  post :: 's
  out :: "command list"

text \<open>The attributes every scenario class has.\<close>

record scenario =
  triggered :: bool
  trigger_points :: trigger
  trigger_area :: trigger
  actor_list :: "actor_id list"

text \<open>
  A sequence of \<open>tick\<close> calls on one scenario object, the simulator's state changing
  between the calls: the list of results, one for each call.
\<close>

fun run_ticks :: "('s \<Rightarrow> actor \<Rightarrow> sim \<Rightarrow> 's tick_result) \<Rightarrow> 's \<Rightarrow> (actor \<times> sim) list
    \<Rightarrow> 's tick_result list" where
  "run_ticks tick self [] = []"
| "run_ticks tick self (i # rest) =
     (let r = tick self (fst i) (snd i) in r # run_ticks tick (post r) rest)"


text \<open>How often a flag goes from false to true along a list of its values.\<close>

fun rises :: "bool list \<Rightarrow> nat" where
  "rises (a # b # rest) = (if \<not> a \<and> b then 1 else 0) + rises (b # rest)"
| "rises _ = 0"

section \<open>spawn_static_car_crash_1.py\<close>

record StaticCarCrash_1 = scenario +
  scc_timer :: int
  police_car_actor :: actor_id
  car1_actor :: actor_id
  car2_actor :: actor_id
  traffic_warning_actor :: actor_id

text \<open>
  The constructor spawns the police car, two cars, the warning sign, two traffic cones and
  five construction cones, in this order, and appends each to \<open>actor_list\<close>.
\<close>

definition StaticCarCrash_1_init :: "world \<Rightarrow> trigger option \<Rightarrow> StaticCarCrash_1 \<times> command list" where
  "StaticCarCrash_1_init w trigger_points_arg =
     (let tp = (case trigger_points_arg of
                  Some t \<Rightarrow> t
                | None \<Rightarrow> ((220.80, -86.50), (238.30, 1.60)));
          n = next_id w
      in (\<lparr> triggered = False, trigger_points = tp, trigger_area = tp,
            actor_list = [n, n + 1, n + 2, n + 3] @ [n + 4, n + 5] @
                         [n + 6, n + 7, n + 8, n + 9, n + 10],
            scc_timer = 400,
            police_car_actor = n, car1_actor = n + 1, car2_actor = n + 2,
            traffic_warning_actor = n + 3 \<rparr>,
          [SetLightState n [RightBlinker, LeftBlinker, Fog, Interior, Position, LowBeam, Special1],
           SetLightState (n + 2) [RightBlinker, LeftBlinker, Fog, Interior, Position, LowBeam],
           ApplyVehicleControl n 0 0 0 True False,
           ApplyVehicleControl (n + 1) 0 0 0 True False,
           ApplyVehicleControl (n + 2) 0 0 0 True False]))"

definition StaticCarCrash_1_trigger :: "StaticCarCrash_1 \<Rightarrow> StaticCarCrash_1 \<times> command list" where
  "StaticCarCrash_1_trigger self =
     (self\<lparr>triggered := True\<rparr>,
      [Print ''Scenario -Static Car Crash near tunnel- has been triggered!''])"

definition StaticCarCrash_1_tick :: "StaticCarCrash_1 \<Rightarrow> actor \<Rightarrow> sim
    \<Rightarrow> StaticCarCrash_1 tick_result" where
  "StaticCarCrash_1_tick self ego_vehicle sim =
     (if triggered self then
        (if is_inside_bounding_box (location ego_vehicle)
              (fst (trigger_area self)) (snd (trigger_area self)) then
           (if scc_timer self > 0 then
              \<lparr>ret = Inr 0, post = self\<lparr>scc_timer := scc_timer self - 1\<rparr>, out = []\<rparr>
            else
              \<lparr>ret = Inr 1, post = self,
               out = [Print ''Ego vehicle failed to complete the scenario!'']\<rparr>)
         else
           \<lparr>ret = Inr 1, post = self,
            out = [Print ''Ego vehicle successfully avoided the obstacle, scenario passed!'']\<rparr>)
      else if is_inside_bounding_box (location ego_vehicle)
                (fst (trigger_area self)) (snd (trigger_area self)) then
        \<lparr>ret = Inr 0, post = fst (StaticCarCrash_1_trigger self),
         out = snd (StaticCarCrash_1_trigger self)\<rparr>
      else \<lparr>ret = Inr 0, post = self, out = []\<rparr>)"

definition StaticCarCrash_1_destroy :: "StaticCarCrash_1 \<Rightarrow> StaticCarCrash_1 \<times> command list" where
  "StaticCarCrash_1_destroy self =
     (self,
      [Print (CHR 0x0A # ''Scenario -Static Car Crash near tunnel- finished!''),
       PrintF ''Scenario is destroying %d actors'' (int (length (actor_list self)))] @
      map DestroyActor (actor_list self))"

section \<open>spawn_squirrel_running_across.py\<close>

record SquirrelRunningAcrossTheRoad = scenario +
  sq_checkpoint :: bool
  squirrel_x_position :: real
  sq_timer :: int
  sq_world_fixed_delta_seconds :: real
  sq_collision_detected :: bool
  squirrel_actor :: actor_id

definition SquirrelRunningAcrossTheRoad_init :: "world \<Rightarrow> trigger option
    \<Rightarrow> SquirrelRunningAcrossTheRoad \<times> command list" where
  "SquirrelRunningAcrossTheRoad_init w trigger_points_arg =
     (let tp = (case trigger_points_arg of
                  Some t \<Rightarrow> t
                | None \<Rightarrow> ((103.10, 131.40), (105.30, 135.00)));
          n = next_id w
      in (\<lparr> triggered = False, trigger_points = tp, trigger_area = tp, actor_list = [n],
            sq_checkpoint = False, squirrel_x_position = 122.60, sq_timer = 30,
            sq_world_fixed_delta_seconds = fixed_delta_seconds w,
            sq_collision_detected = False, squirrel_actor = n \<rparr>,
          [SetSimulatePhysics n True]))"

definition SquirrelRunningAcrossTheRoad_trigger :: "SquirrelRunningAcrossTheRoad
    \<Rightarrow> SquirrelRunningAcrossTheRoad \<times> command list" where
  "SquirrelRunningAcrossTheRoad_trigger self =
     (self\<lparr>triggered := True\<rparr>,
      [Print ''Scenario -Squirrel running across the road- has been triggered!''])"

text \<open>
  In the pursuit branch the source assigns \<open>checkpoint\<close> before it divides by
  \<open>time_to_intersect\<close>, so a raise there leaves the checkpoint set.
\<close>

definition SquirrelRunningAcrossTheRoad_tick :: "SquirrelRunningAcrossTheRoad \<Rightarrow> actor \<Rightarrow> sim
    \<Rightarrow> SquirrelRunningAcrossTheRoad tick_result" where
  "SquirrelRunningAcrossTheRoad_tick self ego_vehicle sim =
     (if triggered self then
        (let squirrel_transform = sim (squirrel_actor self);
             ego_vehicle_velocity = velocity ego_vehicle;
             ego_vehicle_location = location ego_vehicle
         in
         if \<not> sq_collision_detected self then
           (if \<bar>vec_x (location squirrel_transform) - squirrel_x_position self\<bar> > 0.01 then
              \<lparr>ret = Inr 0, post = self\<lparr>sq_collision_detected := True\<rparr>,
               out = [Print ''Ego vehicle collided with the squirrel.'',
                      SetSimulatePhysics (squirrel_actor self) False]\<rparr>
            else if \<not> sq_checkpoint self then
              (if vec_x ego_vehicle_velocity > 0 then
                 (case py_truediv
                         \<bar>vec_x (location squirrel_transform) - vec_x ego_vehicle_location\<bar>
                         (vec_x ego_vehicle_velocity) of
                    Inl e \<Rightarrow> \<lparr>ret = Inl e, post = self, out = []\<rparr>
                  | Inr time_to_intersect \<Rightarrow>
                      (let distance_to_intersect =
                             \<bar>vec_y (location squirrel_transform) - vec_y ego_vehicle_location\<bar>;
                           self1 = (if distance_to_intersect < 0.8
                                    then self\<lparr>sq_checkpoint := True\<rparr> else self)
                       in case py_truediv distance_to_intersect time_to_intersect of
                            Inl e \<Rightarrow> \<lparr>ret = Inl e, post = self1, out = []\<rparr>
                          | Inr v \<Rightarrow>
                              \<lparr>ret = Inr 0, post = self1,
                               out = [SetTransform (squirrel_actor self)
                                        ((location squirrel_transform)
                                           \<lparr>vec_y := vec_y (location squirrel_transform) -
                                              v * sq_world_fixed_delta_seconds self\<rparr>)
                                        (pitch squirrel_transform) (yaw squirrel_transform)
                                        (roll squirrel_transform)]\<rparr>))
               else \<lparr>ret = Inr 0, post = self, out = []\<rparr>)
            else
              (let new_location = (location squirrel_transform)
                     \<lparr>vec_y := vec_y (location squirrel_transform) -
                        1.5 * sq_world_fixed_delta_seconds self\<rparr>;
                   moved = SetTransform (squirrel_actor self) new_location
                     (pitch squirrel_transform) (yaw squirrel_transform) (roll squirrel_transform)
               in if vec_y new_location < 127.40 then
                    \<lparr>ret = Inr 1, post = self,
                     out = [moved,
                            Print ''The squirrel has successfully crossed the road, scenario passed!'']\<rparr>
                  else \<lparr>ret = Inr 0, post = self, out = [moved]\<rparr>))
         else
           (if sq_timer self > 0 then
              \<lparr>ret = Inr 0, post = self\<lparr>sq_timer := sq_timer self - 1\<rparr>, out = []\<rparr>
            else \<lparr>ret = Inr 1, post = self, out = []\<rparr>))
      else if is_inside_bounding_box (location ego_vehicle)
                (fst (trigger_area self)) (snd (trigger_area self)) then
        \<lparr>ret = Inr 0, post = fst (SquirrelRunningAcrossTheRoad_trigger self),
         out = snd (SquirrelRunningAcrossTheRoad_trigger self)\<rparr>
      else
        \<lparr>ret = Inr 0,
         post = self\<lparr>trigger_area := update_trigger_points (trigger_points self)
                                       (get_vehicle_speed ego_vehicle) False True\<rparr>,
         out = []\<rparr>)"

definition SquirrelRunningAcrossTheRoad_destroy :: "SquirrelRunningAcrossTheRoad
    \<Rightarrow> SquirrelRunningAcrossTheRoad \<times> command list" where
  "SquirrelRunningAcrossTheRoad_destroy self =
     (self,
      [Print (CHR 0x0A # ''Scenario -Squirrel running across the road- finished!''),
       PrintF ''Scenario is destroying %d actors'' (int (length (actor_list self)))] @
      map DestroyActor (actor_list self))"

section \<open>spawn_ball_boy.py\<close>

record BoyFootball = scenario +
  bf_checkpoint :: bool
  football_actor :: actor_id
  pedestrian_actor :: actor_id
  cybertruck_actor :: actor_id
  nissan_actor :: actor_id
  truck_actor :: actor_id

definition BoyFootball_init :: "world \<Rightarrow> trigger option \<Rightarrow> BoyFootball \<times> command list" where
  "BoyFootball_init w trigger_points_arg =
     (let tp = (case trigger_points_arg of
                  Some t \<Rightarrow> t
                | None \<Rightarrow> ((61.50, 133.00), (62.00, 136.00)));
          n = next_id w
      in (\<lparr> triggered = False, trigger_points = tp, trigger_area = tp,
            actor_list = [n, n + 1, n + 2, n + 3, n + 4],
            bf_checkpoint = False, football_actor = n, pedestrian_actor = n + 1,
            cybertruck_actor = n + 2, nissan_actor = n + 3, truck_actor = n + 4 \<rparr>,
          [SetSimulatePhysics n False]))"

definition BoyFootball_trigger :: "BoyFootball \<Rightarrow> BoyFootball \<times> command list" where
  "BoyFootball_trigger self =
     (self\<lparr>triggered := True\<rparr>,
      [SetSimulatePhysics (football_actor self) True,
       ApplyWalkerControl (pedestrian_actor self)
         \<lparr>direction = \<lparr>vec_x = 0.0, vec_y = -1.0, vec_z = 0.0\<rparr>, speed = 3.5, jump = False\<rparr>,
       AddImpulse (football_actor self) \<lparr>vec_x = 0.0, vec_y = -25.0, vec_z = 10.0\<rparr>,
       Print ''Scenario -Boy With a Ball- has been triggered!''])"

definition BoyFootball_tick :: "BoyFootball \<Rightarrow> actor \<Rightarrow> sim \<Rightarrow> BoyFootball tick_result" where
  "BoyFootball_tick self ego_vehicle sim =
     (if triggered self then
        (let pedestrian_actor_location = location (sim (pedestrian_actor self)) in
         if vec_x pedestrian_actor_location = 0.0 \<and> vec_y pedestrian_actor_location = 0.0 then
           \<lparr>ret = Inr 1, post = self,
            out = [Print ''Pedestrian has been killed, ego vehicle failed to complete the scenario!'']\<rparr>
         else if \<not> bf_checkpoint self then
           (if vec_y pedestrian_actor_location > 136.00 then
              (case adjust_pedestrian_velocity ego_vehicle (sim (pedestrian_actor self)) of
                 Inl e \<Rightarrow> \<lparr>ret = Inl e, post = self, out = []\<rparr>
               | Inr walker_control \<Rightarrow>
                   \<lparr>ret = Inr 0, post = self,
                    out = [ApplyWalkerControl (pedestrian_actor self) walker_control]\<rparr>)
            else if vec_y pedestrian_actor_location < 127.00 then
              \<lparr>ret = Inr 0, post = self\<lparr>bf_checkpoint := True\<rparr>,
               out = [ApplyWalkerControl (pedestrian_actor self)
                        \<lparr>direction = \<lparr>vec_x = 0.0, vec_y = 1.0, vec_z = 0.0\<rparr>,
                         speed = 3.5, jump = False\<rparr>]\<rparr>
            else
              \<lparr>ret = Inr 0, post = self,
               out = [ApplyWalkerControl (pedestrian_actor self)
                        \<lparr>direction = \<lparr>vec_x = 0.0, vec_y = -1.0, vec_z = 0.0\<rparr>,
                         speed = 3.5, jump = False\<rparr>]\<rparr>)
         else
           (if vec_y pedestrian_actor_location > 140.00 then
              \<lparr>ret = Inr 1, post = self,
               out = [Print ''Pedestrian has successfully crossed the road, ego vehicle passed the scenario!'']\<rparr>
            else \<lparr>ret = Inr 0, post = self, out = []\<rparr>))
      else if is_inside_bounding_box (location ego_vehicle)
                (fst (trigger_area self)) (snd (trigger_area self)) then
        \<lparr>ret = Inr 0, post = fst (BoyFootball_trigger self), out = snd (BoyFootball_trigger self)\<rparr>
      else
        \<lparr>ret = Inr 0,
         post = self\<lparr>trigger_area := update_trigger_points (trigger_points self)
                                       (get_vehicle_speed ego_vehicle) False True\<rparr>,
         out = []\<rparr>)"

section \<open>spawn_dangerous_excavator.py\<close>

record DangerousExcavator = scenario +
  de_timer :: int
  de_checkpoint :: bool
  construction_cone_actor :: actor_id
  excavator_bottom_actor :: actor_id
  excavator_top_actor :: actor_id
  barrier1_actor :: actor_id
  barrier2_actor :: actor_id
  barrier3_actor :: actor_id
  warning_sign_actor :: actor_id

definition DangerousExcavator_init :: "world \<Rightarrow> trigger option
    \<Rightarrow> DangerousExcavator \<times> command list" where
  "DangerousExcavator_init w trigger_points_arg =
     (let tp = (case trigger_points_arg of
                  Some t \<Rightarrow> t
                | None \<Rightarrow> ((-125.50, 131.30), (-127.50, 134.50)));
          n = next_id w
      in (\<lparr> triggered = False, trigger_points = tp, trigger_area = tp,
            actor_list = [n, n + 1, n + 2, n + 3, n + 4, n + 5, n + 6],
            de_timer = 100, de_checkpoint = False,
            construction_cone_actor = n, excavator_bottom_actor = n + 1,
            excavator_top_actor = n + 2, barrier1_actor = n + 3, barrier2_actor = n + 4,
            barrier3_actor = n + 5, warning_sign_actor = n + 6 \<rparr>,
          []))"

definition DangerousExcavator_trigger :: "DangerousExcavator
    \<Rightarrow> DangerousExcavator \<times> command list" where
  "DangerousExcavator_trigger self =
     (self\<lparr>triggered := True\<rparr>,
      [Print ''Scenario -Dangerous Excavator- has been triggered!''])"

definition DangerousExcavator_tick :: "DangerousExcavator \<Rightarrow> actor \<Rightarrow> sim
    \<Rightarrow> DangerousExcavator tick_result" where
  "DangerousExcavator_tick self ego_vehicle sim =
     (if triggered self then
        (let top = sim (excavator_top_actor self) in
         if \<not> de_checkpoint self then
           (if yaw top \<ge> 50 then
              \<lparr>ret = Inr 0, post = self,
               out = [SetTransform (excavator_top_actor self) (location top)
                        (pitch top) (yaw top - 2) (roll top)]\<rparr>
            else \<lparr>ret = Inr 0, post = self\<lparr>de_checkpoint := True\<rparr>, out = []\<rparr>)
         else if de_checkpoint self \<and> yaw top < 130 then
           \<lparr>ret = Inr 0, post = self,
            out = [SetTransform (excavator_top_actor self) (location top)
                     (pitch top) (yaw top + 2.5) (roll top)]\<rparr>
         else
           (if de_timer self > 0 then
              \<lparr>ret = Inr 0, post = self\<lparr>de_timer := de_timer self - 1\<rparr>, out = []\<rparr>
            else \<lparr>ret = Inr 1, post = self, out = []\<rparr>))
      else if is_inside_bounding_box (location ego_vehicle)
                (fst (trigger_area self)) (snd (trigger_area self)) then
        \<lparr>ret = Inr 0, post = fst (DangerousExcavator_trigger self),
         out = snd (DangerousExcavator_trigger self)\<rparr>
      else
        \<lparr>ret = Inr 0,
         post = self\<lparr>trigger_area := update_trigger_points (trigger_points self)
                                       (get_vehicle_speed ego_vehicle) True True\<rparr>,
         out = []\<rparr>)"

section \<open>spawn_parking_HGV.py\<close>

text \<open>
  \<open>checkpoint\<close> is a list of two flags, created by the constructor and only assigned by
  index afterwards; it is modelled as a pair, \<open>fst\<close> for \<open>checkpoint[0]\<close> and \<open>snd\<close> for
  \<open>checkpoint[1]\<close>. \<open>collision_detected\<close> is set by the sensor's callback, which the
  simulator calls between ticks.
\<close>

record ParkingHGV = scenario +
  hgv_timer :: int
  hgv_collision_detected :: bool
  hgv_checkpoint :: "bool \<times> bool"
  hgv_actor :: actor_id
  collision_sensor :: actor_id

text \<open>
  The truck is spawned and appended first; the sensor is spawned second and inserted at
  index \<open>len(actor_list) - 1\<close>, in front of the truck.
\<close>

definition ParkingHGV_init :: "world \<Rightarrow> trigger option \<Rightarrow> ParkingHGV \<times> command list" where
  "ParkingHGV_init w trigger_points_arg =
     (let tp = (case trigger_points_arg of
                  Some t \<Rightarrow> t
                | None \<Rightarrow> ((-31.80, 133.70), (-71.00, 140.50)));
          n = next_id w
      in (\<lparr> triggered = False, trigger_points = tp, trigger_area = tp,
            actor_list = [n + 1, n],
            hgv_timer = 400, hgv_collision_detected = False,
            hgv_checkpoint = (False, False), hgv_actor = n, collision_sensor = n + 1 \<rparr>,
          [SetLightState n [Interior, Fog, Position, LowBeam, Reverse],
           ApplyVehicleControl n 0.0 0.0 1.0 True False]))"


definition ParkingHGV_trigger :: "ParkingHGV \<Rightarrow> ParkingHGV \<times> command list" where
  "ParkingHGV_trigger self =
     (self\<lparr>triggered := True\<rparr>, [Print ''Scenario -Parking HGV- has been triggered!''])"

text \<open>
  The checkpoint branch of a triggered tick: the object after it and the commands to the
  truck.
\<close>

definition ParkingHGV_drive :: "ParkingHGV \<Rightarrow> vec3 \<Rightarrow> ParkingHGV \<times> command list" where
  "ParkingHGV_drive self vehicle_location =
     (if \<not> fst (hgv_checkpoint self) then
        (if vec_y vehicle_location < 143.50 then
           (self, [ApplyVehicleControl (hgv_actor self) 1.0 0.0 0.0 False True])
         else
           (self\<lparr>hgv_checkpoint := (True, snd (hgv_checkpoint self))\<rparr>,
            [ApplyVehicleControl (hgv_actor self) 0.0 0.0 1.0 False False,
             SetLightState (hgv_actor self) [Interior, Fog, Position, LowBeam]]))
      else if \<not> snd (hgv_checkpoint self) then
        (if vec_y vehicle_location > 142.60 then
           (self, [ApplyVehicleControl (hgv_actor self) 1.0 0.4 0.0 False False])
         else
           (self\<lparr>hgv_checkpoint := (fst (hgv_checkpoint self), True)\<rparr>,
            [ApplyVehicleControl (hgv_actor self) 0.0 0.0 1.0 False False,
             SetLightState (hgv_actor self) [Interior, Fog, Position, LowBeam, Reverse]]))
      else
        (if vec_y vehicle_location < 144.00 then
           (self, [ApplyVehicleControl (hgv_actor self) 1.0 0.0 0.0 False True])
         else
           (self, [ApplyVehicleControl (hgv_actor self) 0.0 0.0 1.0 False False])))"

definition ParkingHGV_tick :: "ParkingHGV \<Rightarrow> actor \<Rightarrow> sim \<Rightarrow> ParkingHGV tick_result" where
  "ParkingHGV_tick self ego_vehicle sim =
     (if triggered self then
        (if hgv_collision_detected self then
           \<lparr>ret = Inr 1, post = self,
            out = [Print ''Collision with the car detected, scenario failed!'']\<rparr>
         else
           (let vehicle_location = location (sim (hgv_actor self));
                self1 = fst (ParkingHGV_drive self vehicle_location);
                cmds = snd (ParkingHGV_drive self vehicle_location)
            in
            if is_inside_bounding_box (location ego_vehicle)
                 (fst (trigger_area self1)) (snd (trigger_area self1)) then
              (if hgv_timer self1 > 0 \<and> get_vehicle_speed ego_vehicle > 0.1 then
                 \<lparr>ret = Inr 0, post = self1\<lparr>hgv_timer := hgv_timer self1 - 1\<rparr>, out = cmds\<rparr>
               else
                 \<lparr>ret = Inr 1, post = self1,
                  out = cmds @ [Print ''Ego vehicle failed to complete the scenario!'']\<rparr>)
            else
              \<lparr>ret = Inr 1, post = self1,
               out = cmds @
                     [Print ''Ego vehicle successfully passed the obstacle, scenario passed!'']\<rparr>))
      else if is_inside_bounding_box (location ego_vehicle)
                (fst (trigger_area self)) (snd (trigger_area self)) then
        \<lparr>ret = Inr 0, post = fst (ParkingHGV_trigger self), out = snd (ParkingHGV_trigger self)\<rparr>
      else \<lparr>ret = Inr 0, post = self, out = []\<rparr>)"

definition ParkingHGV_destroy :: "ParkingHGV \<Rightarrow> ParkingHGV \<times> command list" where
  "ParkingHGV_destroy self =
     (self,
      [SensorStop (collision_sensor self),
       Print (CHR 0x0A # ''Scenario -Parking HGV- finished!''),
       PrintF ''Scenario is destroying %d actors'' (int (length (actor_list self)))] @
      map DestroyActor (actor_list self))"

text \<open>
  What happens to a Parking HGV scenario between construction and teardown: a tick, or a
  call of the collision sensor's callback.
\<close>

datatype event = Tick actor sim | Collision string



section \<open>spawn_loose_zoo_animals.py\<close>

text \<open>\<open>checkpoint\<close> is again a list of two flags, modelled as a pair.\<close>

record LooseZooAnimals = scenario +
  lz_checkpoint :: "bool \<times> bool"
  gazelle_x :: real
  gorilla_x :: real
  lz_world_fixed_delta_seconds :: real
  gazelle_actor :: actor_id
  gorilla_actor :: actor_id

definition LooseZooAnimals_init :: "world \<Rightarrow> trigger option \<Rightarrow> LooseZooAnimals \<times> command list" where
  "LooseZooAnimals_init w trigger_points_arg =
     (let tp = (case trigger_points_arg of
                  Some t \<Rightarrow> t
                | None \<Rightarrow> ((102.00, 57.30), (104.70, 60.80)));
          n = next_id w
      in (\<lparr> triggered = False, trigger_points = tp, trigger_area = tp,
            actor_list = [n, n + 1],
            lz_checkpoint = (False, False), gazelle_x = 71.20, gorilla_x = 77.90,
            lz_world_fixed_delta_seconds = fixed_delta_seconds w,
            gazelle_actor = n, gorilla_actor = n + 1 \<rparr>,
          [SetSimulatePhysics n True, SetSimulatePhysics (n + 1) True]))"

definition LooseZooAnimals_trigger :: "LooseZooAnimals \<Rightarrow> LooseZooAnimals \<times> command list" where
  "LooseZooAnimals_trigger self =
     (self\<lparr>triggered := True\<rparr>, [Print ''Scenario -Loose zoo animals- has been triggered!''])"

definition LooseZooAnimals_tick :: "LooseZooAnimals \<Rightarrow> actor \<Rightarrow> sim
    \<Rightarrow> LooseZooAnimals tick_result" where
  "LooseZooAnimals_tick self ego_vehicle sim =
     (if triggered self then
        (let gazelle_transform = sim (gazelle_actor self);
             gorilla_transform = sim (gorilla_actor self);
             dt = lz_world_fixed_delta_seconds self;
             c0 = (if \<bar>gorilla_x self - vec_x (location gorilla_transform)\<bar> > 0.1
                   then True else fst (lz_checkpoint self));
             c1 = (if \<bar>gazelle_x self - vec_x (location gazelle_transform)\<bar> > 0.1
                   then True else snd (lz_checkpoint self))
         in
         if \<not> c0 then
           (if vec_y (location gorilla_transform) < 50.90 then
              (let gorilla_location = (location gorilla_transform)
                     \<lparr>vec_x := vec_x (location gorilla_transform) + 0.3 * dt,
                      vec_y := vec_y (location gorilla_transform) + 2.1 * dt\<rparr>
               in \<lparr>ret = Inr 0,
                   post = self\<lparr>lz_checkpoint := (c0, c1),
                               gazelle_x := vec_x (location gazelle_transform),
                               gorilla_x := vec_x gorilla_location\<rparr>,
                   out = [SetTransform (gorilla_actor self) gorilla_location
                            (pitch gorilla_transform) (yaw gorilla_transform)
                            (roll gorilla_transform)]\<rparr>)
            else
              \<lparr>ret = Inr 0,
               post = self\<lparr>lz_checkpoint := (True, c1),
                           gazelle_x := vec_x (location gazelle_transform),
                           gorilla_x := vec_x (location gorilla_transform)\<rparr>,
               out = []\<rparr>)
         else if \<not> c1 then
           (if vec_y (location gazelle_transform) > 36.80 then
              (let gazelle_location = (location gazelle_transform)
                     \<lparr>vec_x := vec_x (location gazelle_transform) - 1.2 * dt,
                      vec_y := vec_y (location gazelle_transform) - 2.3 * dt\<rparr>
               in \<lparr>ret = Inr 0,
                   post = self\<lparr>lz_checkpoint := (c0, c1),
                               gazelle_x := vec_x gazelle_location,
                               gorilla_x := vec_x (location gorilla_transform)\<rparr>,
                   out = [SetTransform (gazelle_actor self) gazelle_location
                            (pitch gazelle_transform) (yaw gazelle_transform)
                            (roll gazelle_transform)]\<rparr>)
            else
              \<lparr>ret = Inr 0,
               post = self\<lparr>lz_checkpoint := (c0, True),
                           gazelle_x := vec_x (location gazelle_transform),
                           gorilla_x := vec_x (location gorilla_transform)\<rparr>,
               out = []\<rparr>)
         else \<lparr>ret = Inr 1, post = self\<lparr>lz_checkpoint := (c0, c1)\<rparr>, out = []\<rparr>)
      else if is_inside_bounding_box (location ego_vehicle)
                (fst (trigger_area self)) (snd (trigger_area self)) then
        \<lparr>ret = Inr 0, post = fst (LooseZooAnimals_trigger self),
         out = snd (LooseZooAnimals_trigger self)\<rparr>
      else
        \<lparr>ret = Inr 0,
         post = self\<lparr>trigger_area := update_trigger_points (trigger_points self)
                                       (get_vehicle_speed ego_vehicle) True True\<rparr>,
         out = []\<rparr>)"

section \<open>Concrete actors used in the examples\<close>

definition stopped_ego :: actor where
  "stopped_ego =
     \<lparr> location = \<lparr>vec_x = 60, vec_y = 134, vec_z = 0\<rparr>, pitch = 0, yaw = 0, roll = 0,
       forward_vector = \<lparr>vec_x = 1, vec_y = 0, vec_z = 0\<rparr>,
       velocity = \<lparr>vec_x = 0, vec_y = 0, vec_z = 0\<rparr>,
       control = \<lparr>direction = \<lparr>vec_x = 0, vec_y = 0, vec_z = 0\<rparr>, speed = 0, jump = False\<rparr> \<rparr>"

definition crossing_boy :: actor where
  "crossing_boy =
     \<lparr> location = \<lparr>vec_x = 80, vec_y = 138, vec_z = 1\<rparr>, pitch = 0, yaw = 270, roll = 0,
       forward_vector = \<lparr>vec_x = 0, vec_y = -1, vec_z = 0\<rparr>,
       velocity = \<lparr>vec_x = 0, vec_y = -3.5, vec_z = 0\<rparr>,
       control = \<lparr>direction = \<lparr>vec_x = 0, vec_y = -1, vec_z = 0\<rparr>, speed = 3.5, jump = False\<rparr> \<rparr>"


definition world0 :: world where
  "world0 = \<lparr>next_id = 0, fixed_delta_seconds = 0.05\<rparr>"

definition ego_at :: "real \<Rightarrow> real \<Rightarrow> real \<Rightarrow> actor" where
  "ego_at px py v =
     \<lparr> location = \<lparr>vec_x = px, vec_y = py, vec_z = 0\<rparr>, pitch = 0, yaw = 0, roll = 0,
       forward_vector = \<lparr>vec_x = 1, vec_y = 0, vec_z = 0\<rparr>,
       velocity = \<lparr>vec_x = v, vec_y = 0, vec_z = 0\<rparr>,
       control = \<lparr>direction = \<lparr>vec_x = 0, vec_y = 0, vec_z = 0\<rparr>, speed = 0, jump = False\<rparr> \<rparr>"

definition parked :: sim where
  "parked = (\<lambda>a. ego_at 0 0 0)"

definition squirrel_waiting :: sim where
  "squirrel_waiting = (\<lambda>a.
     \<lparr> location = \<lparr>vec_x = 122.60, vec_y = 138.40, vec_z = 0.43\<rparr>, pitch = 0, yaw = 270, roll = 0,
       forward_vector = \<lparr>vec_x = 0, vec_y = -1, vec_z = 0\<rparr>,
       velocity = \<lparr>vec_x = 0, vec_y = 0, vec_z = 0\<rparr>,
       control = \<lparr>direction = \<lparr>vec_x = 0, vec_y = 0, vec_z = 0\<rparr>, speed = 0, jump = False\<rparr> \<rparr>)"

definition boy_crossing :: sim where
  "boy_crossing = (\<lambda>a. crossing_boy)"

definition squirrel_triggered :: SquirrelRunningAcrossTheRoad where
  "squirrel_triggered =
     post (SquirrelRunningAcrossTheRoad_tick (fst (SquirrelRunningAcrossTheRoad_init world0 None))
             (ego_at 104 133 5) squirrel_waiting)"

definition boy_triggered :: BoyFootball where
  "boy_triggered = post (BoyFootball_tick (fst (BoyFootball_init world0 None))
                           (ego_at 61.8 134 0) boy_crossing)"

definition boy_idle_1 :: BoyFootball where
  "boy_idle_1 = post (BoyFootball_tick (fst (BoyFootball_init world0 None))
                        (ego_at 40 134.5 3) boy_crossing)"

definition boy_idle_2 :: BoyFootball where
  "boy_idle_2 = post (BoyFootball_tick boy_idle_1 (ego_at 40.15 134.5 2) boy_crossing)"

definition crash_counting :: StaticCarCrash_1 where
  "crash_counting = (fst (StaticCarCrash_1_init world0 None))\<lparr>triggered := True, scc_timer := 2\<rparr>"

definition excavator_counting :: DangerousExcavator where
  "excavator_counting =
     (fst (DangerousExcavator_init world0 None))
       \<lparr>triggered := True, de_timer := 2, de_checkpoint := True\<rparr>"

definition arm_back :: sim where
  "arm_back = (\<lambda>a.
     \<lparr> location = \<lparr>vec_x = -130.60, vec_y = 126.40, vec_z = 1.0\<rparr>, pitch = 0, yaw = 130, roll = 0,
       forward_vector = \<lparr>vec_x = 0, vec_y = 1, vec_z = 0\<rparr>,
       velocity = \<lparr>vec_x = 0, vec_y = 0, vec_z = 0\<rparr>,
       control = \<lparr>direction = \<lparr>vec_x = 0, vec_y = 0, vec_z = 0\<rparr>, speed = 0, jump = False\<rparr> \<rparr>)"

text \<open>
  The outcome of a tick is what it prints. The Static Car Crash scenario announces a pass
  and a failure with one message each; the Parking HGV scenario has a second failure
  message for a collision.
\<close>

definition StaticCarCrash_1_passed :: "StaticCarCrash_1 tick_result \<Rightarrow> bool" where
  "StaticCarCrash_1_passed r =
     (Print ''Ego vehicle successfully avoided the obstacle, scenario passed!'' \<in> set (out r))"

definition StaticCarCrash_1_failed :: "StaticCarCrash_1 tick_result \<Rightarrow> bool" where
  "StaticCarCrash_1_failed r =
     (Print ''Ego vehicle failed to complete the scenario!'' \<in> set (out r))"

definition ParkingHGV_passed :: "ParkingHGV tick_result \<Rightarrow> bool" where
  "ParkingHGV_passed r =
     (Print ''Ego vehicle successfully passed the obstacle, scenario passed!'' \<in> set (out r))"

definition ParkingHGV_failed :: "ParkingHGV tick_result \<Rightarrow> bool" where
  "ParkingHGV_failed r =
     (Print ''Ego vehicle failed to complete the scenario!'' \<in> set (out r) \<or>
      Print ''Collision with the car detected, scenario failed!'' \<in> set (out r))"

definition hgv_parked :: sim where
  "hgv_parked = (\<lambda>a.
     \<lparr> location = \<lparr>vec_x = -39.80, vec_y = 137.20, vec_z = 0.1\<rparr>, pitch = 0, yaw = 270, roll = 0,
       forward_vector = \<lparr>vec_x = 0, vec_y = -1, vec_z = 0\<rparr>,
       velocity = \<lparr>vec_x = 0, vec_y = 0, vec_z = 0\<rparr>,
       control = \<lparr>direction = \<lparr>vec_x = 0, vec_y = 0, vec_z = 0\<rparr>, speed = 0, jump = False\<rparr> \<rparr>)"

definition hgv_triggered :: ParkingHGV where
  "hgv_triggered = post (ParkingHGV_tick (fst (ParkingHGV_init world0 None))
                           (ego_at (-35) 137 5) hgv_parked)"







text \<open>The actors a list of commands asks the simulator to destroy, in order.\<close>

fun released :: "command list \<Rightarrow> actor_id list" where
  "released [] = []"
| "released (DestroyActor a # cs) = a # released cs"
| "released (c # cs) = released cs"

text \<open>
  Two calls of \<open>destroy\<close> in a row, the second on the object the first leaves: all commands
  issued.
\<close>

definition SquirrelRunningAcrossTheRoad_destroy_twice :: "SquirrelRunningAcrossTheRoad
    \<Rightarrow> command list" where
  "SquirrelRunningAcrossTheRoad_destroy_twice self =
     snd (SquirrelRunningAcrossTheRoad_destroy self) @
     snd (SquirrelRunningAcrossTheRoad_destroy (fst (SquirrelRunningAcrossTheRoad_destroy self)))"

definition ParkingHGV_destroy_twice :: "ParkingHGV \<Rightarrow> command list" where
  "ParkingHGV_destroy_twice self =
     snd (ParkingHGV_destroy self) @
     snd (ParkingHGV_destroy (fst (ParkingHGV_destroy self)))"



text \<open>A trigger area with both corners moved by \<open>dx\<close> along x and \<open>dy\<close> along y.\<close>

definition translated :: "trigger \<Rightarrow> real \<Rightarrow> real \<Rightarrow> trigger" where
  "translated tp dx dy =
     ((fst (fst tp) + dx, snd (fst tp) + dy), (fst (snd tp) + dx, snd (snd tp) + dy))"

text \<open>Indexing a Python list with a non-negative index raises when the index is out of range.\<close>

definition py_getitem :: "'a list \<Rightarrow> nat \<Rightarrow> py_error + 'a" where
  "py_getitem xs i = (if i < length xs then Inr (xs ! i) else Inl IndexError)"

text \<open>The object after a sequence of ticks.\<close>

fun after :: "('s \<Rightarrow> actor \<Rightarrow> sim \<Rightarrow> 's tick_result) \<Rightarrow> 's \<Rightarrow> (actor \<times> sim) list \<Rightarrow> 's" where
  "after tick self [] = self"
| "after tick self (i # rest) = after tick (post (tick self (fst i) (snd i))) rest"

text \<open>
  A condition on the object and the simulator's state holds at the start of every tick of
  a sequence.
\<close>

fun every_tick :: "('s \<Rightarrow> actor \<Rightarrow> sim \<Rightarrow> bool) \<Rightarrow> ('s \<Rightarrow> actor \<Rightarrow> sim \<Rightarrow> 's tick_result) \<Rightarrow> 's
    \<Rightarrow> (actor \<times> sim) list \<Rightarrow> bool" where
  "every_tick P tick self [] = True"
| "every_tick P tick self (i # rest) =
     (P self (fst i) (snd i) \<and> every_tick P tick (post (tick self (fst i) (snd i))) rest)"

text \<open>
  The ticks that take the countdown branch: for the Static Car Crash scenario those of a
  triggered scenario with the ego vehicle inside the area, for the Dangerous Excavator
  scenario those of a triggered scenario with the checkpoint set and the arm at a yaw of
  130 or more.
\<close>

definition StaticCarCrash_1_counting :: "StaticCarCrash_1 \<Rightarrow> actor \<Rightarrow> sim \<Rightarrow> bool" where
  "StaticCarCrash_1_counting self ego_vehicle sim =
     (triggered self \<and>
      is_inside_bounding_box (location ego_vehicle)
        (fst (trigger_area self)) (snd (trigger_area self)))"

definition StaticCarCrash_1_waiting :: "StaticCarCrash_1 \<Rightarrow> actor \<Rightarrow> sim \<Rightarrow> bool" where
  "StaticCarCrash_1_waiting self ego_vehicle sim =
     (\<not> StaticCarCrash_1_counting self ego_vehicle sim)"

definition DangerousExcavator_counting :: "DangerousExcavator \<Rightarrow> actor \<Rightarrow> sim \<Rightarrow> bool" where
  "DangerousExcavator_counting self ego_vehicle sim =
     (triggered self \<and> de_checkpoint self \<and> \<not> yaw (sim (excavator_top_actor self)) < 130)"

definition DangerousExcavator_waiting :: "DangerousExcavator \<Rightarrow> actor \<Rightarrow> sim \<Rightarrow> bool" where
  "DangerousExcavator_waiting self ego_vehicle sim =
     (\<not> DangerousExcavator_counting self ego_vehicle sim)"

definition arm_forward :: sim where
  "arm_forward = (\<lambda>a.
     \<lparr> location = \<lparr>vec_x = -130.60, vec_y = 126.40, vec_z = 1.0\<rparr>, pitch = 0, yaw = 48, roll = 0,
       forward_vector = \<lparr>vec_x = 0, vec_y = 1, vec_z = 0\<rparr>,
       velocity = \<lparr>vec_x = 0, vec_y = 0, vec_z = 0\<rparr>,
       control = \<lparr>direction = \<lparr>vec_x = 0, vec_y = 0, vec_z = 0\<rparr>, speed = 0, jump = False\<rparr> \<rparr>)"

section \<open>Facts about the geometry helpers\<close>

lemma norm3_nonneg: "0 \<le> norm3 v"
  by (simp add: norm3_def)

lemma norm3_axis: "norm3 \<lparr>vec_x = a, vec_y = 0, vec_z = 0\<rparr> = \<bar>a\<bar>"
  by (simp add: norm3_def)

lemma norm3_3_4: "norm3 \<lparr>vec_x = 3, vec_y = 4, vec_z = 0\<rparr> = 5"
proof -
  have "sqrt 25 = (5::real)" by (rule real_sqrt_unique) simp_all
  then show ?thesis by (simp add: norm3_def)
qed

section \<open>The intercept velocity solver\<close>

lemma calculate_required_speed_stopped:
  "norm3 car_velocity < 0.1 \<Longrightarrow>
   calculate_required_speed car_location car_velocity pedestrian_location pedestrian_direction =
     Inr 0"
  by (simp add: calculate_required_speed_def)

lemma calculate_required_speed_moving:
  "\<not> norm3 car_velocity < 0.1 \<Longrightarrow>
   calculate_required_speed car_location car_velocity pedestrian_location pedestrian_direction =
     (if cross_offset car_location pedestrian_location pedestrian_direction = 0
      then Inl ZeroDivisionError
      else Inr (travel_offset car_location pedestrian_location pedestrian_direction /
                (cross_offset car_location pedestrian_location pedestrian_direction /
                 norm3 car_velocity)))"
  by (auto simp add: calculate_required_speed_def py_truediv_def travel_offset_def
        cross_offset_def Let_def)

text \<open>
  Claim C3, as stated: for every input \<open>calculate_required_speed\<close> returns the speed of the
  specification. It fails where the car moves and the offset along the non-travel axis is
  zero: the car at the origin with velocity (3, 4, 0), the pedestrian at (2, 0, 0) heading
  along x. The source then divides by \<open>time_to_intersect = 0.0\<close> and raises.
\<close>

theorem calculate_required_speed_formula_counterexample:
  "calculate_required_speed \<lparr>vec_x = 0, vec_y = 0, vec_z = 0\<rparr>
     \<lparr>vec_x = 3, vec_y = 4, vec_z = 0\<rparr> \<lparr>vec_x = 2, vec_y = 0, vec_z = 0\<rparr>
     \<lparr>vec_x = 1, vec_y = 0, vec_z = 0\<rparr> \<noteq>
   Inr (spec_required_speed \<lparr>vec_x = 0, vec_y = 0, vec_z = 0\<rparr>
     \<lparr>vec_x = 3, vec_y = 4, vec_z = 0\<rparr> \<lparr>vec_x = 2, vec_y = 0, vec_z = 0\<rparr>
     \<lparr>vec_x = 1, vec_y = 0, vec_z = 0\<rparr>)"
  by (simp add: calculate_required_speed_def py_truediv_def norm3_3_4)

text \<open>
  Claim C3, amended: when the car's speed is below 0.1, or the offset between car and
  pedestrian along the non-travel axis is nonzero, \<open>calculate_required_speed\<close> returns the
  speed of the specification: 0 below 0.1, else the travel-axis offset divided by (the
  non-travel-axis offset divided by the car's speed).
\<close>

theorem calculate_required_speed_formula:
  assumes "norm3 car_velocity < 0.1 \<or>
           cross_offset car_location pedestrian_location pedestrian_direction \<noteq> 0"
  shows "calculate_required_speed car_location car_velocity pedestrian_location
           pedestrian_direction =
         Inr (spec_required_speed car_location car_velocity pedestrian_location
                pedestrian_direction)"
proof (cases "norm3 car_velocity < 0.1")
  case True
  then show ?thesis
    by (simp add: calculate_required_speed_stopped spec_required_speed_def)
next
  case False
  with assms have "cross_offset car_location pedestrian_location pedestrian_direction \<noteq> 0"
    by simp
  with False show ?thesis
    by (simp add: calculate_required_speed_moving spec_required_speed_def)
qed

theorem calculate_required_speed_formula_witness:
  "cross_offset \<lparr>vec_x = 0, vec_y = 0, vec_z = 0\<rparr> \<lparr>vec_x = 2, vec_y = 5, vec_z = 0\<rparr>
     \<lparr>vec_x = 1, vec_y = 0, vec_z = 0\<rparr> \<noteq> 0 \<and>
   calculate_required_speed \<lparr>vec_x = 0, vec_y = 0, vec_z = 0\<rparr>
     \<lparr>vec_x = 3, vec_y = 4, vec_z = 0\<rparr> \<lparr>vec_x = 2, vec_y = 5, vec_z = 0\<rparr>
     \<lparr>vec_x = 1, vec_y = 0, vec_z = 0\<rparr> = Inr 2"
  using calculate_required_speed_formula [of "\<lparr>vec_x = 3, vec_y = 4, vec_z = 0\<rparr>"
      "\<lparr>vec_x = 0, vec_y = 0, vec_z = 0\<rparr>" "\<lparr>vec_x = 2, vec_y = 5, vec_z = 0\<rparr>"
      "\<lparr>vec_x = 1, vec_y = 0, vec_z = 0\<rparr>"]
  by (simp add: cross_offset_def travel_offset_def spec_required_speed_def norm3_3_4)

text \<open>
  Claim C10: \<open>calculate_required_speed\<close> never raises a division by zero. The source does
  raise: the car's bumper at x = 80 moving at 5 m/s along x, the pedestrian at x = 80
  walking along y. The offset along the non-travel axis is zero, so \<open>time_to_intersect\<close> is
  zero and the last division raises.
\<close>

theorem calculate_required_speed_raises:
  "calculate_required_speed \<lparr>vec_x = 80, vec_y = 133.2, vec_z = 0\<rparr>
     \<lparr>vec_x = 5, vec_y = 0, vec_z = 0\<rparr> \<lparr>vec_x = 80, vec_y = 138, vec_z = 1\<rparr>
     \<lparr>vec_x = 0, vec_y = -1, vec_z = 0\<rparr> = Inl ZeroDivisionError"
  by (simp add: calculate_required_speed_def py_truediv_def norm3_axis)

section \<open>The pursuit controller\<close>

lemma adjust_pedestrian_velocity_Inr:
  "calculate_required_speed (adjust_car_location (location ego_vehicle) ego_vehicle 2.0)
     (velocity ego_vehicle) (location pedestrian) (direction (control pedestrian)) = Inr r \<Longrightarrow>
   adjust_pedestrian_velocity ego_vehicle pedestrian =
     Inr ((control pedestrian) \<lparr> speed := (if r < 0.1 then 0.1 else r) \<rparr>)"
  by (simp add: adjust_pedestrian_velocity_def Let_def)

text \<open>
  Claim C4, as stated: against an ego vehicle slower than 0.1 the commanded pursuit speed
  is 0. It fails for a standing ego vehicle: the solver returns 0, and the controller
  raises that to the floor, so the pedestrian is commanded to walk at 0.1.
\<close>

theorem pursuit_speed_stopped_counterexample:
  "get_vehicle_speed stopped_ego = 0 \<and>
   adjust_pedestrian_velocity stopped_ego crossing_boy =
     Inr \<lparr>direction = \<lparr>vec_x = 0, vec_y = -1, vec_z = 0\<rparr>, speed = 0.1, jump = False\<rparr> \<and>
   map_sum id speed (adjust_pedestrian_velocity stopped_ego crossing_boy) \<noteq> Inr 0"
  by (simp add: adjust_pedestrian_velocity_def calculate_required_speed_def
      get_vehicle_speed_def norm3_def stopped_ego_def crossing_boy_def)

text \<open>
  Claim C4, amended: on a pursuit tick where the solver returns a raw speed \<open>r\<close>, the
  controller applies the pedestrian's current control with its speed set to the larger of
  \<open>r\<close> and 0.1, direction and jump unchanged. For an ego vehicle slower than 0.1 the raw
  speed is 0 and the commanded speed is the floor 0.1, not 0.
\<close>

theorem pursuit_speed_floor:
  assumes "calculate_required_speed (adjust_car_location (location ego_vehicle) ego_vehicle 2.0)
             (velocity ego_vehicle) (location pedestrian) (direction (control pedestrian)) =
           Inr r"
  shows "adjust_pedestrian_velocity ego_vehicle pedestrian =
           Inr ((control pedestrian) \<lparr> speed := max r 0.1 \<rparr>) \<and>
         (get_vehicle_speed ego_vehicle < 0.1 \<longrightarrow>
            r = 0 \<and>
            adjust_pedestrian_velocity ego_vehicle pedestrian =
              Inr ((control pedestrian) \<lparr> speed := 0.1 \<rparr>))"
proof -
  have a: "adjust_pedestrian_velocity ego_vehicle pedestrian =
           Inr ((control pedestrian) \<lparr> speed := max r 0.1 \<rparr>)"
    using adjust_pedestrian_velocity_Inr [OF assms] by (simp add: max_def not_less)
  have b: "r = 0" if "get_vehicle_speed ego_vehicle < 0.1"
    using that assms calculate_required_speed_stopped [of "velocity ego_vehicle"]
    by (simp add: get_vehicle_speed_def)
  from a b show ?thesis by auto
qed

theorem pursuit_speed_floor_witness:
  "calculate_required_speed (adjust_car_location (location stopped_ego) stopped_ego 2.0)
     (velocity stopped_ego) (location crossing_boy) (direction (control crossing_boy)) = Inr 0 \<and>
   get_vehicle_speed stopped_ego < 0.1 \<and>
   adjust_pedestrian_velocity stopped_ego crossing_boy =
     Inr \<lparr>direction = \<lparr>vec_x = 0, vec_y = -1, vec_z = 0\<rparr>, speed = 0.1, jump = False\<rparr>"
proof -
  have h: "calculate_required_speed (adjust_car_location (location stopped_ego) stopped_ego 2.0)
     (velocity stopped_ego) (location crossing_boy) (direction (control crossing_boy)) = Inr 0"
    by (simp add: calculate_required_speed_def norm3_def stopped_ego_def)
  have s: "get_vehicle_speed stopped_ego < 0.1"
    by (simp add: get_vehicle_speed_def norm3_def stopped_ego_def)
  from pursuit_speed_floor [OF h] s h show ?thesis
    by (simp add: crossing_boy_def)
qed

section \<open>The completion signal of tick\<close>

lemma StaticCarCrash_1_tick_idle:
  "\<not> triggered self \<Longrightarrow> ret (StaticCarCrash_1_tick self ego_vehicle sim) = Inr 0"
  by (simp add: StaticCarCrash_1_tick_def)


lemma SquirrelRunningAcrossTheRoad_tick_idle:
  "\<not> triggered self \<Longrightarrow> ret (SquirrelRunningAcrossTheRoad_tick self ego_vehicle sim) = Inr 0"
  by (simp add: SquirrelRunningAcrossTheRoad_tick_def)



section \<open>Triggering happens once and freezes the trigger area\<close>

lemma rises_all_True: "rises (b # replicate n True) = (if \<not> b \<and> 0 < n then 1 else 0)"
proof (induction n arbitrary: b)
  case 0
  show ?case by simp
next
  case (Suc n)
  show ?case using Suc.IH [of True] by simp
qed

lemma run_ticks_length: "length (run_ticks tick s inputs) = length inputs"
  by (induction inputs arbitrary: s) (simp_all add: Let_def)

lemma run_ticks_frozen:
  fixes tick :: "'a scenario_scheme \<Rightarrow> actor \<Rightarrow> sim \<Rightarrow> 'a scenario_scheme tick_result"
  assumes step: "\<And>s e w. triggered s \<Longrightarrow>
      triggered (post (tick s e w)) \<and> trigger_area (post (tick s e w)) = trigger_area s"
  shows "triggered s \<Longrightarrow>
     map (\<lambda>r. triggered (post r)) (run_ticks tick s inputs) = replicate (length inputs) True \<and>
     map (\<lambda>r. trigger_area (post r)) (run_ticks tick s inputs) =
       replicate (length inputs) (trigger_area s)"
proof (induction inputs arbitrary: s)
  case Nil
  show ?case by simp
next
  case (Cons i rest)
  from step [OF Cons.prems, of "fst i" "snd i"]
  have t: "triggered (post (tick s (fst i) (snd i)))"
    and a: "trigger_area (post (tick s (fst i) (snd i))) = trigger_area s"
    by simp_all
  from Cons.IH [OF t] a t show ?case by (simp add: Let_def)
qed

lemma run_ticks_rises:
  fixes tick :: "'a scenario_scheme \<Rightarrow> actor \<Rightarrow> sim \<Rightarrow> 'a scenario_scheme tick_result"
  assumes step: "\<And>s e w. triggered s \<Longrightarrow>
      triggered (post (tick s e w)) \<and> trigger_area (post (tick s e w)) = trigger_area s"
  shows "rises (triggered s # map (\<lambda>r. triggered (post r)) (run_ticks tick s inputs)) \<le> 1"
proof (induction inputs arbitrary: s)
  case Nil
  show ?case by simp
next
  case (Cons i rest)
  let ?s1 = "post (tick s (fst i) (snd i))"
  show ?case
  proof (cases "triggered ?s1")
    case True
    from run_ticks_frozen [of tick, OF step True, of rest]
    have "map (\<lambda>r. triggered (post r)) (run_ticks tick ?s1 rest) = replicate (length rest) True"
      by simp
    then show ?thesis using True by (simp add: Let_def rises_all_True)
  next
    case False
    with step [of s "fst i" "snd i"] have "\<not> triggered s" by blast
    with False Cons.IH [of ?s1] show ?thesis by (simp add: Let_def)
  qed
qed

lemma SquirrelRunningAcrossTheRoad_tick_frozen:
  "triggered self \<Longrightarrow>
   triggered (post (SquirrelRunningAcrossTheRoad_tick self ego_vehicle sim)) \<and>
   trigger_area (post (SquirrelRunningAcrossTheRoad_tick self ego_vehicle sim)) = trigger_area self"
  by (simp add: SquirrelRunningAcrossTheRoad_tick_def Let_def split: sum.split)

lemma BoyFootball_tick_frozen:
  "triggered self \<Longrightarrow>
   triggered (post (BoyFootball_tick self ego_vehicle sim)) \<and>
   trigger_area (post (BoyFootball_tick self ego_vehicle sim)) = trigger_area self"
  by (simp add: BoyFootball_tick_def Let_def split: sum.split)

text \<open>
  Claim C2: over every sequence of ticks of a scenario, from any state, \<open>triggered\<close> goes
  from false to true at most once; and from a triggered scenario on, every tick leaves
  \<open>triggered\<close> true and \<open>trigger_area\<close> as it was. Shown for the Squirrel and the Boy with a
  Ball scenario.
\<close>

theorem triggered_once_area_frozen:
  "rises (triggered a # map (\<lambda>r. triggered (post r))
            (run_ticks SquirrelRunningAcrossTheRoad_tick a inputs)) \<le> 1 \<and>
   rises (triggered b # map (\<lambda>r. triggered (post r)) (run_ticks BoyFootball_tick b inputs)) \<le> 1 \<and>
   (triggered a \<longrightarrow>
      map (\<lambda>r. triggered (post r)) (run_ticks SquirrelRunningAcrossTheRoad_tick a inputs) =
        replicate (length inputs) True \<and>
      map (\<lambda>r. trigger_area (post r)) (run_ticks SquirrelRunningAcrossTheRoad_tick a inputs) =
        replicate (length inputs) (trigger_area a)) \<and>
   (triggered b \<longrightarrow>
      map (\<lambda>r. triggered (post r)) (run_ticks BoyFootball_tick b inputs) =
        replicate (length inputs) True \<and>
      map (\<lambda>r. trigger_area (post r)) (run_ticks BoyFootball_tick b inputs) =
        replicate (length inputs) (trigger_area b))"
  using run_ticks_rises [of SquirrelRunningAcrossTheRoad_tick a inputs,
      OF SquirrelRunningAcrossTheRoad_tick_frozen]
    run_ticks_rises [of BoyFootball_tick b inputs, OF BoyFootball_tick_frozen]
    run_ticks_frozen [of SquirrelRunningAcrossTheRoad_tick a inputs,
      OF SquirrelRunningAcrossTheRoad_tick_frozen]
    run_ticks_frozen [of BoyFootball_tick b inputs, OF BoyFootball_tick_frozen]
  by blast

theorem triggered_once_area_frozen_witness:
  "triggered squirrel_triggered \<and> triggered boy_triggered \<and>
   map (\<lambda>r. trigger_area (post r))
     (run_ticks SquirrelRunningAcrossTheRoad_tick squirrel_triggered
        [(ego_at 110 133 0, squirrel_waiting), (ego_at 104 133 5, squirrel_waiting)]) =
   [((103.10, 131.40), (105.30, 135.00)), ((103.10, 131.40), (105.30, 135.00))] \<and>
   map (\<lambda>r. trigger_area (post r))
     (run_ticks BoyFootball_tick boy_triggered
        [(ego_at 110 133 0, squirrel_waiting), (ego_at 104 133 5, squirrel_waiting)]) =
   [((61.50, 133.00), (62.00, 136.00)), ((61.50, 133.00), (62.00, 136.00))]"
proof -
  have a: "triggered squirrel_triggered"
    by (simp add: squirrel_triggered_def SquirrelRunningAcrossTheRoad_tick_def
        SquirrelRunningAcrossTheRoad_init_def SquirrelRunningAcrossTheRoad_trigger_def
        is_inside_bounding_box_def ego_at_def world0_def Let_def)
  have a': "trigger_area squirrel_triggered = ((103.10, 131.40), (105.30, 135.00))"
    by (simp add: squirrel_triggered_def SquirrelRunningAcrossTheRoad_tick_def
        SquirrelRunningAcrossTheRoad_init_def SquirrelRunningAcrossTheRoad_trigger_def
        is_inside_bounding_box_def ego_at_def world0_def Let_def)
  have b: "triggered boy_triggered"
    by (simp add: boy_triggered_def BoyFootball_tick_def BoyFootball_init_def
        BoyFootball_trigger_def is_inside_bounding_box_def ego_at_def world0_def Let_def)
  have b': "trigger_area boy_triggered = ((61.50, 133.00), (62.00, 136.00))"
    by (simp add: boy_triggered_def BoyFootball_tick_def BoyFootball_init_def
        BoyFootball_trigger_def is_inside_bounding_box_def ego_at_def world0_def Let_def)
  from triggered_once_area_frozen [of squirrel_triggered
      "[(ego_at 110 133 0, squirrel_waiting), (ego_at 104 133 5, squirrel_waiting)]"
      boy_triggered] a b a' b'
  show ?thesis by simp
qed

section \<open>Translation of the trigger area on idle ticks\<close>

lemma get_vehicle_speed_ego_at: "get_vehicle_speed (ego_at px py v) = \<bar>v\<bar>"
  by (simp add: get_vehicle_speed_def ego_at_def norm3_axis)

lemma update_trigger_points_shift:
  "update_trigger_points ((x0, y0), (x1, y1)) s add_speed add_to_x =
     (let d = (if add_speed then s else - s) in
      if add_to_x then ((x0 + d, y0), (x1 + d, y1)) else ((x0, y0 + d), (x1, y1 + d)))"
  by (simp add: update_trigger_points_def)

lemma boy_idle_1_area: "trigger_area boy_idle_1 = ((58.5, 133), (59, 136))"
  by (simp add: boy_idle_1_def BoyFootball_tick_def BoyFootball_init_def world0_def
      is_inside_bounding_box_def get_vehicle_speed_ego_at update_trigger_points_def Let_def)
     (simp add: ego_at_def)

lemma boy_idle_1_fields:
  "\<not> triggered boy_idle_1 \<and> trigger_points boy_idle_1 = ((61.5, 133), (62, 136))"
  by (simp add: boy_idle_1_def BoyFootball_tick_def BoyFootball_init_def world0_def
      is_inside_bounding_box_def Let_def)
     (simp add: ego_at_def)

section \<open>The countdown\<close>

lemma StaticCarCrash_1_countdown:
  "triggered self \<Longrightarrow> scc_timer self = int T \<Longrightarrow> length inputs = Suc T \<Longrightarrow>
   list_all (\<lambda>i. is_inside_bounding_box (location (fst i))
                    (fst (trigger_area self)) (snd (trigger_area self))) inputs \<Longrightarrow>
   map ret (run_ticks StaticCarCrash_1_tick self inputs) = replicate T (Inr 0) @ [Inr 1]"
proof (induction T arbitrary: self inputs)
  case 0
  then obtain i where "inputs = [i]"
    by (cases inputs) simp_all
  with 0 show ?case
    by (simp add: StaticCarCrash_1_tick_def Let_def)
next
  case (Suc T)
  then obtain i rest where inputs: "inputs = i # rest"
    by (cases inputs) simp_all
  let ?s1 = "post (StaticCarCrash_1_tick self (fst i) (snd i))"
  from Suc.prems inputs
  have now: "ret (StaticCarCrash_1_tick self (fst i) (snd i)) = Inr 0"
    and s1: "?s1 = self\<lparr>scc_timer := scc_timer self - 1\<rparr>"
    by (simp_all add: StaticCarCrash_1_tick_def)
  from Suc.prems inputs s1
  have "map ret (run_ticks StaticCarCrash_1_tick ?s1 rest) = replicate T (Inr 0) @ [Inr 1]"
    by (intro Suc.IH) simp_all
  with now inputs show ?case by (simp add: Let_def)
qed

lemma DangerousExcavator_countdown:
  "triggered self \<Longrightarrow> de_checkpoint self \<Longrightarrow> de_timer self = int T \<Longrightarrow>
   length inputs = Suc T \<Longrightarrow>
   list_all (\<lambda>i. \<not> yaw (snd i (excavator_top_actor self)) < 130) inputs \<Longrightarrow>
   map ret (run_ticks DangerousExcavator_tick self inputs) = replicate T (Inr 0) @ [Inr 1]"
proof (induction T arbitrary: self inputs)
  case 0
  then obtain i where "inputs = [i]"
    by (cases inputs) simp_all
  with 0 show ?case
    by (simp add: DangerousExcavator_tick_def Let_def)
next
  case (Suc T)
  then obtain i rest where inputs: "inputs = i # rest"
    by (cases inputs) simp_all
  let ?s1 = "post (DangerousExcavator_tick self (fst i) (snd i))"
  from Suc.prems inputs
  have now: "ret (DangerousExcavator_tick self (fst i) (snd i)) = Inr 0"
    and s1: "?s1 = self\<lparr>de_timer := de_timer self - 1\<rparr>"
    by (simp_all add: DangerousExcavator_tick_def Let_def)
  from Suc.prems inputs s1
  have "map ret (run_ticks DangerousExcavator_tick ?s1 rest) = replicate T (Inr 0) @ [Inr 1]"
    by (intro Suc.IH) simp_all
  with now inputs show ?case by (simp add: Let_def)
qed

section \<open>Pass and fail of the presence checks\<close>

lemma ParkingHGV_drive_keeps:
  "triggered (fst (ParkingHGV_drive self l)) = triggered self \<and>
   trigger_area (fst (ParkingHGV_drive self l)) = trigger_area self \<and>
   trigger_points (fst (ParkingHGV_drive self l)) = trigger_points self \<and>
   hgv_timer (fst (ParkingHGV_drive self l)) = hgv_timer self \<and>
   hgv_collision_detected (fst (ParkingHGV_drive self l)) = hgv_collision_detected self \<and>
   actor_list (fst (ParkingHGV_drive self l)) = actor_list self"
  by (simp add: ParkingHGV_drive_def)

lemma ParkingHGV_drive_silent: "Print m \<notin> set (snd (ParkingHGV_drive self l))"
  by (simp add: ParkingHGV_drive_def)

lemma StaticCarCrash_1_verdict:
  "triggered self \<Longrightarrow>
   (StaticCarCrash_1_passed (StaticCarCrash_1_tick self ego_vehicle sim) \<longleftrightarrow>
      \<not> is_inside_bounding_box (location ego_vehicle)
           (fst (trigger_area self)) (snd (trigger_area self))) \<and>
   (StaticCarCrash_1_failed (StaticCarCrash_1_tick self ego_vehicle sim) \<longleftrightarrow>
      is_inside_bounding_box (location ego_vehicle)
        (fst (trigger_area self)) (snd (trigger_area self)) \<and> \<not> scc_timer self > 0) \<and>
   (ret (StaticCarCrash_1_tick self ego_vehicle sim) = Inr 1 \<longleftrightarrow>
      StaticCarCrash_1_passed (StaticCarCrash_1_tick self ego_vehicle sim) \<or>
      StaticCarCrash_1_failed (StaticCarCrash_1_tick self ego_vehicle sim))"
  by (simp add: StaticCarCrash_1_tick_def StaticCarCrash_1_passed_def StaticCarCrash_1_failed_def)

lemma ParkingHGV_verdict:
  "triggered self \<Longrightarrow>
   (ParkingHGV_passed (ParkingHGV_tick self ego_vehicle sim) \<longleftrightarrow>
      \<not> hgv_collision_detected self \<and>
      \<not> is_inside_bounding_box (location ego_vehicle)
           (fst (trigger_area self)) (snd (trigger_area self))) \<and>
   (ParkingHGV_failed (ParkingHGV_tick self ego_vehicle sim) \<longleftrightarrow>
      hgv_collision_detected self \<or>
      is_inside_bounding_box (location ego_vehicle)
        (fst (trigger_area self)) (snd (trigger_area self)) \<and>
      \<not> (hgv_timer self > 0 \<and> get_vehicle_speed ego_vehicle > 0.1)) \<and>
   (ret (ParkingHGV_tick self ego_vehicle sim) = Inr 1 \<longleftrightarrow>
      ParkingHGV_passed (ParkingHGV_tick self ego_vehicle sim) \<or>
      ParkingHGV_failed (ParkingHGV_tick self ego_vehicle sim))"
  by (simp add: ParkingHGV_tick_def ParkingHGV_passed_def ParkingHGV_failed_def Let_def
      ParkingHGV_drive_keeps ParkingHGV_drive_silent)

lemma hgv_triggered_fields:
  "triggered hgv_triggered \<and> \<not> hgv_collision_detected hgv_triggered \<and>
   hgv_timer hgv_triggered = 400 \<and>
   trigger_area hgv_triggered = ((-31.80, 133.70), (-71.00, 140.50))"
  by (simp add: hgv_triggered_def ParkingHGV_tick_def ParkingHGV_init_def ParkingHGV_trigger_def
      world0_def is_inside_bounding_box_def Let_def)
     (simp add: ego_at_def)

text \<open>
  Claim C7, as stated: while triggered, a presence-check scenario fails only when the timer
  expires with the ego vehicle inside the area. A Parking HGV scenario, just triggered, with
  400 on its timer and no collision, fails on the tick on which the ego vehicle stands still
  inside the area.
\<close>

theorem presence_check_fails_early:
  "triggered hgv_triggered \<and> hgv_timer hgv_triggered = 400 \<and>
   \<not> hgv_collision_detected hgv_triggered \<and>
   is_inside_bounding_box (location (ego_at (-50) 137 0))
     (fst (trigger_area hgv_triggered)) (snd (trigger_area hgv_triggered)) \<and>
   ParkingHGV_failed (ParkingHGV_tick hgv_triggered (ego_at (-50) 137 0) hgv_parked) \<and>
   ret (ParkingHGV_tick hgv_triggered (ego_at (-50) 137 0) hgv_parked) = Inr 1"
  using hgv_triggered_fields
  by (simp add: ParkingHGV_tick_def ParkingHGV_failed_def Let_def ParkingHGV_drive_keeps
      get_vehicle_speed_ego_at is_inside_bounding_box_def)
     (simp add: ego_at_def)

text \<open>
  Claim C7, amended: while triggered, the Static Car Crash scenario announces a pass on a
  tick if and only if the ego vehicle is outside the trigger area on that tick, and a
  failure if and only if the ego vehicle is inside and the timer is no longer positive.
  The Parking HGV scenario, while triggered, announces a failure if and only if a collision
  was detected, or the ego vehicle is inside the area and either the timer is no longer
  positive or the ego vehicle's speed is not above 0.1; it announces a pass if and only if
  no collision was detected and the ego vehicle is outside the area. In both, tick returns
  1 exactly on the ticks that announce an outcome.
\<close>

theorem presence_check_verdict:
  assumes "triggered a" and "triggered b"
  shows "(StaticCarCrash_1_passed (StaticCarCrash_1_tick a ego_vehicle sim) \<longleftrightarrow>
            \<not> is_inside_bounding_box (location ego_vehicle)
                 (fst (trigger_area a)) (snd (trigger_area a))) \<and>
         (StaticCarCrash_1_failed (StaticCarCrash_1_tick a ego_vehicle sim) \<longleftrightarrow>
            is_inside_bounding_box (location ego_vehicle)
              (fst (trigger_area a)) (snd (trigger_area a)) \<and> \<not> scc_timer a > 0) \<and>
         (ret (StaticCarCrash_1_tick a ego_vehicle sim) = Inr 1 \<longleftrightarrow>
            StaticCarCrash_1_passed (StaticCarCrash_1_tick a ego_vehicle sim) \<or>
            StaticCarCrash_1_failed (StaticCarCrash_1_tick a ego_vehicle sim)) \<and>
         (ParkingHGV_passed (ParkingHGV_tick b ego_vehicle sim) \<longleftrightarrow>
            \<not> hgv_collision_detected b \<and>
            \<not> is_inside_bounding_box (location ego_vehicle)
                 (fst (trigger_area b)) (snd (trigger_area b))) \<and>
         (ParkingHGV_failed (ParkingHGV_tick b ego_vehicle sim) \<longleftrightarrow>
            hgv_collision_detected b \<or>
            is_inside_bounding_box (location ego_vehicle)
              (fst (trigger_area b)) (snd (trigger_area b)) \<and>
            \<not> (hgv_timer b > 0 \<and> get_vehicle_speed ego_vehicle > 0.1)) \<and>
         (ret (ParkingHGV_tick b ego_vehicle sim) = Inr 1 \<longleftrightarrow>
            ParkingHGV_passed (ParkingHGV_tick b ego_vehicle sim) \<or>
            ParkingHGV_failed (ParkingHGV_tick b ego_vehicle sim))"
  using StaticCarCrash_1_verdict [OF assms(1), of ego_vehicle sim]
    ParkingHGV_verdict [OF assms(2), of ego_vehicle sim]
  by blast

theorem presence_check_verdict_witness:
  "triggered crash_counting \<and> triggered hgv_triggered \<and>
   StaticCarCrash_1_passed (StaticCarCrash_1_tick crash_counting (ego_at 230 10 5) hgv_parked) \<and>
   ParkingHGV_passed (ParkingHGV_tick hgv_triggered (ego_at 230 10 5) hgv_parked) \<and>
   ret (ParkingHGV_tick hgv_triggered (ego_at 230 10 5) hgv_parked) = Inr 1"
proof -
  have a: "triggered crash_counting"
    "trigger_area crash_counting = ((220.80, -86.50), (238.30, 1.60))"
    by (simp_all add: crash_counting_def StaticCarCrash_1_init_def Let_def)
  have b: "triggered hgv_triggered" using hgv_triggered_fields by simp
  from presence_check_verdict [OF a(1) b, of "ego_at 230 10 5" hgv_parked]
    a(2) hgv_triggered_fields
  show ?thesis by (simp add: a(1) is_inside_bounding_box_def ego_at_def)
qed

section \<open>Order of the checkpoints\<close>







section \<open>Teardown\<close>

lemma released_append: "released (xs @ ys) = released xs @ released ys"
  by (induction xs rule: released.induct) simp_all

lemma released_DestroyActor: "released (map DestroyActor as) = as"
  by (induction as) simp_all

lemma SquirrelRunningAcrossTheRoad_destroy_released:
  "fst (SquirrelRunningAcrossTheRoad_destroy self) = self \<and>
   released (snd (SquirrelRunningAcrossTheRoad_destroy self)) = actor_list self"
  by (simp add: SquirrelRunningAcrossTheRoad_destroy_def released_DestroyActor)

lemma ParkingHGV_destroy_released:
  "fst (ParkingHGV_destroy self) = self \<and>
   released (snd (ParkingHGV_destroy self)) = actor_list self"
  by (simp add: ParkingHGV_destroy_def released_DestroyActor)

text \<open>
  Claim C9, as stated: two calls of \<open>destroy\<close> release each owned actor exactly once. A
  Squirrel scenario owns one actor, handle 0; two calls of \<open>destroy\<close> ask the simulator to
  destroy it twice.
\<close>

theorem destroy_twice_releases_twice:
  "actor_list (fst (SquirrelRunningAcrossTheRoad_init world0 None)) = [0] \<and>
   released (snd (SquirrelRunningAcrossTheRoad_destroy
                    (fst (SquirrelRunningAcrossTheRoad_init world0 None)))) = [0] \<and>
   released (SquirrelRunningAcrossTheRoad_destroy_twice
               (fst (SquirrelRunningAcrossTheRoad_init world0 None))) = [0, 0] \<and>
   count_list (released (SquirrelRunningAcrossTheRoad_destroy_twice
                           (fst (SquirrelRunningAcrossTheRoad_init world0 None)))) 0 = 2"
  by (simp add: SquirrelRunningAcrossTheRoad_destroy_twice_def
      SquirrelRunningAcrossTheRoad_destroy_def SquirrelRunningAcrossTheRoad_init_def
      world0_def Let_def)

text \<open>
  Claim C9, amended: \<open>destroy\<close> leaves the scenario object as it is, in whatever state, and
  asks the simulator to destroy the entries of \<open>actor_list\<close>, each entry once and in order.
  A second call issues the same requests again: two calls name the same set of actors as
  one call, and name every actor twice as often. The actors a constructor puts on
  \<open>actor_list\<close> are distinct, so one call after construction releases each owned actor
  exactly once. Shown for the Squirrel and the Parking HGV scenario.
\<close>

theorem destroy_repeats_release:
  "fst (SquirrelRunningAcrossTheRoad_destroy a) = a \<and>
   released (snd (SquirrelRunningAcrossTheRoad_destroy a)) = actor_list a \<and>
   released (SquirrelRunningAcrossTheRoad_destroy_twice a) = actor_list a @ actor_list a \<and>
   set (released (SquirrelRunningAcrossTheRoad_destroy_twice a)) =
     set (released (snd (SquirrelRunningAcrossTheRoad_destroy a))) \<and>
   count_list (released (SquirrelRunningAcrossTheRoad_destroy_twice a)) x =
     2 * count_list (released (snd (SquirrelRunningAcrossTheRoad_destroy a))) x \<and>
   distinct (actor_list (fst (SquirrelRunningAcrossTheRoad_init w trigger_points_arg))) \<and>
   fst (ParkingHGV_destroy b) = b \<and>
   released (snd (ParkingHGV_destroy b)) = actor_list b \<and>
   released (ParkingHGV_destroy_twice b) = actor_list b @ actor_list b \<and>
   set (released (ParkingHGV_destroy_twice b)) = set (released (snd (ParkingHGV_destroy b))) \<and>
   count_list (released (ParkingHGV_destroy_twice b)) x =
     2 * count_list (released (snd (ParkingHGV_destroy b))) x \<and>
   distinct (actor_list (fst (ParkingHGV_init w trigger_points_arg)))"
proof -
  have i: "distinct (actor_list (fst (SquirrelRunningAcrossTheRoad_init w trigger_points_arg)))"
    "distinct (actor_list (fst (ParkingHGV_init w trigger_points_arg)))"
    by (simp_all add: SquirrelRunningAcrossTheRoad_init_def ParkingHGV_init_def Let_def)
  have c: "count_list (as @ as) x = 2 * count_list as x" for as :: "actor_id list"
    by simp
  show ?thesis
    using i
    by (simp add: SquirrelRunningAcrossTheRoad_destroy_twice_def ParkingHGV_destroy_twice_def
        released_append SquirrelRunningAcrossTheRoad_destroy_released
        ParkingHGV_destroy_released)
qed

section \<open>When tick returns 1\<close>








section \<open>Which scenarios translate the trigger area, and by how much\<close>

lemma update_trigger_points_translated:
  "update_trigger_points tp s add_speed add_to_x =
     translated tp (if add_to_x then (if add_speed then s else - s) else 0)
                   (if add_to_x then 0 else (if add_speed then s else - s))"
  by (simp add: update_trigger_points_def translated_def)

lemma BoyFootball_tick_translates:
  "\<not> triggered self \<Longrightarrow>
   \<not> is_inside_bounding_box (location ego_vehicle)
        (fst (trigger_area self)) (snd (trigger_area self)) \<Longrightarrow>
   trigger_area (post (BoyFootball_tick self ego_vehicle sim)) =
     translated (trigger_points self) (- get_vehicle_speed ego_vehicle) 0 \<and>
   trigger_points (post (BoyFootball_tick self ego_vehicle sim)) = trigger_points self \<and>
   \<not> triggered (post (BoyFootball_tick self ego_vehicle sim))"
  by (simp add: BoyFootball_tick_def update_trigger_points_translated)

lemma SquirrelRunningAcrossTheRoad_tick_translates:
  "\<not> triggered self \<Longrightarrow>
   \<not> is_inside_bounding_box (location ego_vehicle)
        (fst (trigger_area self)) (snd (trigger_area self)) \<Longrightarrow>
   trigger_area (post (SquirrelRunningAcrossTheRoad_tick self ego_vehicle sim)) =
     translated (trigger_points self) (- get_vehicle_speed ego_vehicle) 0 \<and>
   trigger_points (post (SquirrelRunningAcrossTheRoad_tick self ego_vehicle sim)) =
     trigger_points self \<and>
   \<not> triggered (post (SquirrelRunningAcrossTheRoad_tick self ego_vehicle sim))"
  by (simp add: SquirrelRunningAcrossTheRoad_tick_def update_trigger_points_translated)

lemma DangerousExcavator_tick_translates:
  "\<not> triggered self \<Longrightarrow>
   \<not> is_inside_bounding_box (location ego_vehicle)
        (fst (trigger_area self)) (snd (trigger_area self)) \<Longrightarrow>
   trigger_area (post (DangerousExcavator_tick self ego_vehicle sim)) =
     translated (trigger_points self) (get_vehicle_speed ego_vehicle) 0 \<and>
   trigger_points (post (DangerousExcavator_tick self ego_vehicle sim)) = trigger_points self \<and>
   \<not> triggered (post (DangerousExcavator_tick self ego_vehicle sim))"
  by (simp add: DangerousExcavator_tick_def update_trigger_points_translated)

lemma LooseZooAnimals_tick_translates:
  "\<not> triggered self \<Longrightarrow>
   \<not> is_inside_bounding_box (location ego_vehicle)
        (fst (trigger_area self)) (snd (trigger_area self)) \<Longrightarrow>
   trigger_area (post (LooseZooAnimals_tick self ego_vehicle sim)) =
     translated (trigger_points self) (get_vehicle_speed ego_vehicle) 0 \<and>
   trigger_points (post (LooseZooAnimals_tick self ego_vehicle sim)) = trigger_points self \<and>
   \<not> triggered (post (LooseZooAnimals_tick self ego_vehicle sim))"
  by (simp add: LooseZooAnimals_tick_def update_trigger_points_translated)

lemma StaticCarCrash_1_tick_area:
  "trigger_area (post (StaticCarCrash_1_tick self ego_vehicle sim)) = trigger_area self"
  by (simp add: StaticCarCrash_1_tick_def StaticCarCrash_1_trigger_def)

lemma ParkingHGV_tick_area:
  "trigger_area (post (ParkingHGV_tick self ego_vehicle sim)) = trigger_area self"
  by (simp add: ParkingHGV_tick_def ParkingHGV_trigger_def ParkingHGV_drive_keeps Let_def)

text \<open>
  Claim C5, as stated: on an idle tick at ego speed \<open>s\<close> the trigger area for the next tick
  is the current trigger area moved by \<open>s\<close> times the tick duration. With the tick duration
  0.05 of the scenario files, a Boy with a Ball scenario that saw the ego vehicle at speed 3
  has its area 3 below the initial points; on the next idle tick, at speed 2, the area is
  set to 2 below the initial points. It has moved by 1 in the other direction, not by
  \<open>2 * 0.05\<close>.
\<close>

theorem trigger_area_translation_counterexample:
  "trigger_area boy_idle_1 = ((58.5, 133), (59, 136)) \<and>
   trigger_area boy_idle_2 = ((59.5, 133), (60, 136)) \<and>
   trigger_area boy_idle_2 \<noteq>
     update_trigger_points (trigger_area boy_idle_1)
       (get_vehicle_speed (ego_at 40.15 134.5 2) * fixed_delta_seconds world0) False True"
proof -
  have 2: "trigger_area boy_idle_2 = ((59.5, 133), (60, 136))"
    using boy_idle_1_fields boy_idle_1_area
    by (simp add: boy_idle_2_def BoyFootball_tick_def is_inside_bounding_box_def
        get_vehicle_speed_ego_at update_trigger_points_def)
       (simp add: ego_at_def)
  show ?thesis
    by (simp add: 2 boy_idle_1_area get_vehicle_speed_ego_at update_trigger_points_def
        world0_def)
qed

text \<open>
  Claim C5, amended, for the six scenario classes modelled here. In the Boy with a Ball,
  Squirrel, Dangerous Excavator and Loose Zoo Animals scenarios, on an idle tick on which
  the ego vehicle, at speed \<open>s\<close>, is outside the current trigger area, the trigger area for
  the next tick is the scenario's \<open>trigger_points\<close>, which the tick leaves as they are,
  with both corners moved along x by exactly \<open>s\<close>, without a factor for the tick duration:
  by \<open>- s\<close> in the first two, by \<open>+ s\<close> in the last two. The offset of the area from
  \<open>trigger_points\<close> is the current speed; it does not accumulate over ticks. The Static
  Car Crash and Parking HGV scenarios never change their trigger area.
  \<open>update_trigger_points\<close> moves both corners by the speed, added or subtracted, along x
  or along y.
\<close>

theorem trigger_area_translation:
  assumes "\<not> triggered boy"
    and "\<not> is_inside_bounding_box (location ego_vehicle)
             (fst (trigger_area boy)) (snd (trigger_area boy))"
    and "\<not> triggered squirrel"
    and "\<not> is_inside_bounding_box (location ego_vehicle)
             (fst (trigger_area squirrel)) (snd (trigger_area squirrel))"
    and "\<not> triggered excavator"
    and "\<not> is_inside_bounding_box (location ego_vehicle)
             (fst (trigger_area excavator)) (snd (trigger_area excavator))"
    and "\<not> triggered zoo"
    and "\<not> is_inside_bounding_box (location ego_vehicle)
             (fst (trigger_area zoo)) (snd (trigger_area zoo))"
  shows "trigger_area (post (BoyFootball_tick boy ego_vehicle sim)) =
           translated (trigger_points boy) (- get_vehicle_speed ego_vehicle) 0 \<and>
         trigger_points (post (BoyFootball_tick boy ego_vehicle sim)) = trigger_points boy \<and>
         \<not> triggered (post (BoyFootball_tick boy ego_vehicle sim)) \<and>
         trigger_area (post (SquirrelRunningAcrossTheRoad_tick squirrel ego_vehicle sim)) =
           translated (trigger_points squirrel) (- get_vehicle_speed ego_vehicle) 0 \<and>
         trigger_points (post (SquirrelRunningAcrossTheRoad_tick squirrel ego_vehicle sim)) =
           trigger_points squirrel \<and>
         \<not> triggered (post (SquirrelRunningAcrossTheRoad_tick squirrel ego_vehicle sim)) \<and>
         trigger_area (post (DangerousExcavator_tick excavator ego_vehicle sim)) =
           translated (trigger_points excavator) (get_vehicle_speed ego_vehicle) 0 \<and>
         trigger_points (post (DangerousExcavator_tick excavator ego_vehicle sim)) =
           trigger_points excavator \<and>
         \<not> triggered (post (DangerousExcavator_tick excavator ego_vehicle sim)) \<and>
         trigger_area (post (LooseZooAnimals_tick zoo ego_vehicle sim)) =
           translated (trigger_points zoo) (get_vehicle_speed ego_vehicle) 0 \<and>
         trigger_points (post (LooseZooAnimals_tick zoo ego_vehicle sim)) = trigger_points zoo \<and>
         \<not> triggered (post (LooseZooAnimals_tick zoo ego_vehicle sim)) \<and>
         trigger_area (post (StaticCarCrash_1_tick crash ego_vehicle sim)) = trigger_area crash \<and>
         trigger_area (post (ParkingHGV_tick hgv ego_vehicle sim)) = trigger_area hgv \<and>
         update_trigger_points tp s add_speed add_to_x =
           translated tp (if add_to_x then (if add_speed then s else - s) else 0)
                         (if add_to_x then 0 else (if add_speed then s else - s))"
  using BoyFootball_tick_translates [OF assms(1,2), of sim]
    SquirrelRunningAcrossTheRoad_tick_translates [OF assms(3,4), of sim]
    DangerousExcavator_tick_translates [OF assms(5,6), of sim]
    LooseZooAnimals_tick_translates [OF assms(7,8), of sim]
    StaticCarCrash_1_tick_area [of crash ego_vehicle sim]
    ParkingHGV_tick_area [of hgv ego_vehicle sim]
    update_trigger_points_translated [of tp s add_speed add_to_x]
  by blast

theorem trigger_area_translation_witness:
  "\<not> triggered boy_idle_1 \<and>
   \<not> is_inside_bounding_box (location (ego_at 40.15 134.5 2))
        (fst (trigger_area boy_idle_1)) (snd (trigger_area boy_idle_1)) \<and>
   trigger_area (post (BoyFootball_tick boy_idle_1 (ego_at 40.15 134.5 2) boy_crossing)) =
     ((59.5, 133), (60, 136)) \<and>
   trigger_area (post (SquirrelRunningAcrossTheRoad_tick
                         (fst (SquirrelRunningAcrossTheRoad_init world0 None))
                         (ego_at 40.15 134.5 2) boy_crossing)) =
     ((101.10, 131.40), (103.30, 135.00)) \<and>
   trigger_area (post (DangerousExcavator_tick (fst (DangerousExcavator_init world0 None))
                         (ego_at 40.15 134.5 2) boy_crossing)) =
     ((-123.50, 131.30), (-125.50, 134.50)) \<and>
   trigger_area (post (LooseZooAnimals_tick (fst (LooseZooAnimals_init world0 None))
                         (ego_at 40.15 134.5 2) boy_crossing)) =
     ((104.00, 57.30), (106.70, 60.80))"
proof -
  let ?e = "ego_at 40.15 134.5 2"
  have b: "\<not> triggered boy_idle_1"
    "trigger_points boy_idle_1 = ((61.5, 133), (62, 136))"
    using boy_idle_1_fields by simp_all
  have bo: "\<not> is_inside_bounding_box (location ?e)
        (fst (trigger_area boy_idle_1)) (snd (trigger_area boy_idle_1))"
    by (simp add: boy_idle_1_area is_inside_bounding_box_def ego_at_def)
  have s: "\<not> triggered (fst (SquirrelRunningAcrossTheRoad_init world0 None))"
    "trigger_points (fst (SquirrelRunningAcrossTheRoad_init world0 None)) =
       ((103.10, 131.40), (105.30, 135.00))"
    "trigger_area (fst (SquirrelRunningAcrossTheRoad_init world0 None)) =
       ((103.10, 131.40), (105.30, 135.00))"
    by (simp_all add: SquirrelRunningAcrossTheRoad_init_def Let_def)
  have so: "\<not> is_inside_bounding_box (location ?e)
        (fst (trigger_area (fst (SquirrelRunningAcrossTheRoad_init world0 None))))
        (snd (trigger_area (fst (SquirrelRunningAcrossTheRoad_init world0 None))))"
    by (simp add: s is_inside_bounding_box_def ego_at_def)
  have x: "\<not> triggered (fst (DangerousExcavator_init world0 None))"
    "trigger_points (fst (DangerousExcavator_init world0 None)) =
       ((-125.50, 131.30), (-127.50, 134.50))"
    "trigger_area (fst (DangerousExcavator_init world0 None)) =
       ((-125.50, 131.30), (-127.50, 134.50))"
    by (simp_all add: DangerousExcavator_init_def Let_def)
  have xo: "\<not> is_inside_bounding_box (location ?e)
        (fst (trigger_area (fst (DangerousExcavator_init world0 None))))
        (snd (trigger_area (fst (DangerousExcavator_init world0 None))))"
    by (simp add: x is_inside_bounding_box_def ego_at_def)
  have z: "\<not> triggered (fst (LooseZooAnimals_init world0 None))"
    "trigger_points (fst (LooseZooAnimals_init world0 None)) =
       ((102.00, 57.30), (104.70, 60.80))"
    "trigger_area (fst (LooseZooAnimals_init world0 None)) =
       ((102.00, 57.30), (104.70, 60.80))"
    by (simp_all add: LooseZooAnimals_init_def Let_def)
  have zo: "\<not> is_inside_bounding_box (location ?e)
        (fst (trigger_area (fst (LooseZooAnimals_init world0 None))))
        (snd (trigger_area (fst (LooseZooAnimals_init world0 None))))"
    by (simp add: z is_inside_bounding_box_def ego_at_def)
  from trigger_area_translation [OF b(1) bo s(1) so x(1) xo z(1) zo, of boy_crossing
      crash_counting hgv_triggered "((0, 0), (1, 1))" 0 True True]
  show ?thesis
    using b bo
    by (simp add: b(2) s(2) x(2) z(2) get_vehicle_speed_ego_at translated_def)
qed

section \<open>The countdown\<close>

lemma run_ticks_append:
  "run_ticks tick s (xs @ ys) = run_ticks tick s xs @ run_ticks tick (after tick s xs) ys"
  by (induction xs arbitrary: s) (simp_all add: Let_def)

lemma after_append: "after tick s (xs @ ys) = after tick (after tick s xs) ys"
  by (induction xs arbitrary: s) simp_all

lemma StaticCarCrash_1_waiting_timer:
  "every_tick StaticCarCrash_1_waiting StaticCarCrash_1_tick self inputs \<Longrightarrow>
   scc_timer (after StaticCarCrash_1_tick self inputs) = scc_timer self"
proof (induction inputs arbitrary: self)
  case Nil
  show ?case by simp
next
  case (Cons i rest)
  from Cons.prems
  have "scc_timer (post (StaticCarCrash_1_tick self (fst i) (snd i))) = scc_timer self"
    by (simp add: StaticCarCrash_1_waiting_def StaticCarCrash_1_counting_def
        StaticCarCrash_1_tick_def StaticCarCrash_1_trigger_def)
  with Cons.prems Cons.IH [of "post (StaticCarCrash_1_tick self (fst i) (snd i))"]
  show ?case by simp
qed

lemma StaticCarCrash_1_counting_ticks:
  "scc_timer self = int T \<Longrightarrow> length inputs = Suc T \<Longrightarrow>
   every_tick StaticCarCrash_1_counting StaticCarCrash_1_tick self inputs \<Longrightarrow>
   map ret (run_ticks StaticCarCrash_1_tick self inputs) = replicate T (Inr 0) @ [Inr 1]"
proof (induction T arbitrary: self inputs)
  case 0
  then obtain i where "inputs = [i]"
    by (cases inputs) simp_all
  with 0 show ?case
    by (simp add: StaticCarCrash_1_tick_def StaticCarCrash_1_counting_def Let_def)
next
  case (Suc T)
  then obtain i rest where inputs: "inputs = i # rest"
    by (cases inputs) simp_all
  let ?s1 = "post (StaticCarCrash_1_tick self (fst i) (snd i))"
  from Suc.prems inputs
  have now: "ret (StaticCarCrash_1_tick self (fst i) (snd i)) = Inr 0"
    and s1: "scc_timer ?s1 = int T"
    by (simp_all add: StaticCarCrash_1_tick_def StaticCarCrash_1_counting_def)
  from Suc.prems inputs
  have "map ret (run_ticks StaticCarCrash_1_tick ?s1 rest) = replicate T (Inr 0) @ [Inr 1]"
    by (intro Suc.IH s1) simp_all
  with now inputs show ?case by (simp add: Let_def)
qed

lemma DangerousExcavator_waiting_timer:
  "every_tick DangerousExcavator_waiting DangerousExcavator_tick self inputs \<Longrightarrow>
   de_timer (after DangerousExcavator_tick self inputs) = de_timer self"
proof (induction inputs arbitrary: self)
  case Nil
  show ?case by simp
next
  case (Cons i rest)
  from Cons.prems
  have "de_timer (post (DangerousExcavator_tick self (fst i) (snd i))) = de_timer self"
    by (simp add: DangerousExcavator_waiting_def DangerousExcavator_counting_def
        DangerousExcavator_tick_def DangerousExcavator_trigger_def Let_def)
  with Cons.prems Cons.IH [of "post (DangerousExcavator_tick self (fst i) (snd i))"]
  show ?case by simp
qed

lemma DangerousExcavator_counting_ticks:
  "de_timer self = int T \<Longrightarrow> length inputs = Suc T \<Longrightarrow>
   every_tick DangerousExcavator_counting DangerousExcavator_tick self inputs \<Longrightarrow>
   map ret (run_ticks DangerousExcavator_tick self inputs) = replicate T (Inr 0) @ [Inr 1]"
proof (induction T arbitrary: self inputs)
  case 0
  then obtain i where "inputs = [i]"
    by (cases inputs) simp_all
  with 0 show ?case
    by (simp add: DangerousExcavator_tick_def DangerousExcavator_counting_def Let_def)
next
  case (Suc T)
  then obtain i rest where inputs: "inputs = i # rest"
    by (cases inputs) simp_all
  let ?s1 = "post (DangerousExcavator_tick self (fst i) (snd i))"
  from Suc.prems inputs
  have now: "ret (DangerousExcavator_tick self (fst i) (snd i)) = Inr 0"
    and s1: "de_timer ?s1 = int T"
    by (simp_all add: DangerousExcavator_tick_def DangerousExcavator_counting_def Let_def)
  from Suc.prems inputs
  have "map ret (run_ticks DangerousExcavator_tick ?s1 rest) = replicate T (Inr 0) @ [Inr 1]"
    by (intro Suc.IH s1) simp_all
  with now inputs show ?case by (simp add: Let_def)
qed

lemma StaticCarCrash_1_keeps_counting:
  "triggered self \<Longrightarrow>
   is_inside_bounding_box (location (fst i)) (fst (trigger_area self)) (snd (trigger_area self)) \<Longrightarrow>
   every_tick StaticCarCrash_1_counting StaticCarCrash_1_tick self (replicate n i)"
proof (induction n arbitrary: self)
  case 0
  show ?case by simp
next
  case (Suc n)
  let ?s1 = "post (StaticCarCrash_1_tick self (fst i) (snd i))"
  from Suc.prems have "triggered ?s1" "trigger_area ?s1 = trigger_area self"
    by (simp_all add: StaticCarCrash_1_tick_def)
  with Suc.prems Suc.IH [of ?s1] show ?case
    by (simp add: StaticCarCrash_1_counting_def)
qed

lemma DangerousExcavator_keeps_counting:
  "triggered self \<Longrightarrow> de_checkpoint self \<Longrightarrow>
   \<not> yaw (snd i (excavator_top_actor self)) < 130 \<Longrightarrow>
   every_tick DangerousExcavator_counting DangerousExcavator_tick self (replicate n i)"
proof (induction n arbitrary: self)
  case 0
  show ?case by simp
next
  case (Suc n)
  let ?s1 = "post (DangerousExcavator_tick self (fst i) (snd i))"
  from Suc.prems have "triggered ?s1" "de_checkpoint ?s1"
    "excavator_top_actor ?s1 = excavator_top_actor self"
    by (simp_all add: DangerousExcavator_tick_def Let_def)
  with Suc.prems Suc.IH [of ?s1] show ?case
    by (simp add: DangerousExcavator_counting_def)
qed

text \<open>
  Claim C6, amended: in the Static Car Crash and the Dangerous Excavator scenario only the
  ticks of the countdown change the timer, so when the countdown starts the timer still
  holds its initial value \<open>T\<close> (400 and 100 after construction). If every tick from then on
  is a countdown tick, the first \<open>T\<close> of them decrement the timer and return 0, and the
  next one returns 1: 1 is returned exactly \<open>T\<close> ticks after the first tick of the
  countdown, which is \<open>T + 1\<close> ticks after the tick that brought the scenario into the
  state that counts. A countdown tick is, for the Static Car Crash scenario, a tick of a
  triggered scenario with the ego vehicle inside the trigger area, and for the Dangerous
  Excavator scenario a tick of a triggered scenario with the checkpoint set and the arm
  at a yaw of 130 or more.
\<close>

theorem countdown_takes_timer_ticks:
  assumes "scc_timer a = int T"
    and "every_tick StaticCarCrash_1_waiting StaticCarCrash_1_tick a before_a"
    and "every_tick StaticCarCrash_1_counting StaticCarCrash_1_tick
           (after StaticCarCrash_1_tick a before_a) countdown_a"
    and "length countdown_a = Suc T"
    and "de_timer b = int U"
    and "every_tick DangerousExcavator_waiting DangerousExcavator_tick b before_b"
    and "every_tick DangerousExcavator_counting DangerousExcavator_tick
           (after DangerousExcavator_tick b before_b) countdown_b"
    and "length countdown_b = Suc U"
  shows "map ret (run_ticks StaticCarCrash_1_tick
                    (after StaticCarCrash_1_tick a before_a) countdown_a) =
           replicate T (Inr 0) @ [Inr 1] \<and>
         map ret (run_ticks DangerousExcavator_tick
                    (after DangerousExcavator_tick b before_b) countdown_b) =
           replicate U (Inr 0) @ [Inr 1] \<and>
         scc_timer (fst (StaticCarCrash_1_init w trigger_points_arg)) = 400 \<and>
         de_timer (fst (DangerousExcavator_init w trigger_points_arg)) = 100"
proof -
  from assms(1,2) have "scc_timer (after StaticCarCrash_1_tick a before_a) = int T"
    by (simp add: StaticCarCrash_1_waiting_timer)
  then have 1: "map ret (run_ticks StaticCarCrash_1_tick
                    (after StaticCarCrash_1_tick a before_a) countdown_a) =
           replicate T (Inr 0) @ [Inr 1]"
    using assms(3,4) by (intro StaticCarCrash_1_counting_ticks)
  from assms(5,6) have "de_timer (after DangerousExcavator_tick b before_b) = int U"
    by (simp add: DangerousExcavator_waiting_timer)
  then have 2: "map ret (run_ticks DangerousExcavator_tick
                    (after DangerousExcavator_tick b before_b) countdown_b) =
           replicate U (Inr 0) @ [Inr 1]"
    using assms(7,8) by (intro DangerousExcavator_counting_ticks)
  show ?thesis
    by (simp add: 1 2 StaticCarCrash_1_init_def DangerousExcavator_init_def Let_def)
qed

theorem countdown_takes_timer_ticks_witness:
  "scc_timer (fst (StaticCarCrash_1_init world0 None)) = int 400 \<and>
   de_timer (fst (DangerousExcavator_init world0 None)) = int 100 \<and>
   map ret (run_ticks StaticCarCrash_1_tick
              (after StaticCarCrash_1_tick (fst (StaticCarCrash_1_init world0 None))
                 [(ego_at 230 (-40) 5, parked)])
              (replicate 401 (ego_at 230 (-39) 5, parked))) =
     replicate 400 (Inr 0) @ [Inr 1] \<and>
   map ret (run_ticks DangerousExcavator_tick
              (after DangerousExcavator_tick (fst (DangerousExcavator_init world0 None))
                 [(ego_at (-126) 133 0, arm_back), (ego_at (-126) 133 0, arm_forward)])
              (replicate 101 (ego_at (-126) 133 0, arm_back))) =
     replicate 100 (Inr 0) @ [Inr 1]"
proof -
  define a where "a = fst (StaticCarCrash_1_init world0 None)"
  define b where "b = fst (DangerousExcavator_init world0 None)"
  define a1 where "a1 = after StaticCarCrash_1_tick a [(ego_at 230 (-40) 5, parked)]"
  define b1 where "b1 = after DangerousExcavator_tick b
                          [(ego_at (-126) 133 0, arm_back), (ego_at (-126) 133 0, arm_forward)]"
  have a: "scc_timer a = int 400" "\<not> triggered a"
    "trigger_area a = ((220.80, -86.50), (238.30, 1.60))"
    by (simp_all add: a_def StaticCarCrash_1_init_def Let_def)
  have b: "de_timer b = int 100" "\<not> triggered b" "\<not> de_checkpoint b"
    "trigger_area b = ((-125.50, 131.30), (-127.50, 134.50))"
    by (simp_all add: b_def DangerousExcavator_init_def Let_def)
  have wa: "every_tick StaticCarCrash_1_waiting StaticCarCrash_1_tick a
              [(ego_at 230 (-40) 5, parked)]"
    by (simp add: StaticCarCrash_1_waiting_def StaticCarCrash_1_counting_def a)
  have a1: "triggered a1" "trigger_area a1 = ((220.80, -86.50), (238.30, 1.60))"
    by (simp_all add: a1_def StaticCarCrash_1_tick_def StaticCarCrash_1_trigger_def a
        is_inside_bounding_box_def ego_at_def)
  have ca: "every_tick StaticCarCrash_1_counting StaticCarCrash_1_tick a1
              (replicate 401 (ego_at 230 (-39) 5, parked))"
    by (rule StaticCarCrash_1_keeps_counting)
       (simp_all add: a1 is_inside_bounding_box_def ego_at_def)
  have bt: "triggered (post (DangerousExcavator_tick b (ego_at (-126) 133 0) arm_back))"
    "\<not> de_checkpoint (post (DangerousExcavator_tick b (ego_at (-126) 133 0) arm_back))"
    by (simp_all add: DangerousExcavator_tick_def DangerousExcavator_trigger_def b
        is_inside_bounding_box_def ego_at_def)
  have wb: "every_tick DangerousExcavator_waiting DangerousExcavator_tick b
              [(ego_at (-126) 133 0, arm_back), (ego_at (-126) 133 0, arm_forward)]"
    by (simp add: DangerousExcavator_waiting_def DangerousExcavator_counting_def b bt)
  have b1: "triggered b1" "de_checkpoint b1"
    using bt by (simp_all add: b1_def DangerousExcavator_tick_def arm_forward_def Let_def)
  have cb: "every_tick DangerousExcavator_counting DangerousExcavator_tick b1
              (replicate 101 (ego_at (-126) 133 0, arm_back))"
    by (rule DangerousExcavator_keeps_counting) (simp_all add: b1 arm_back_def)
  from countdown_takes_timer_ticks [OF a(1) wa ca [unfolded a1_def] _ b(1) wb
      cb [unfolded b1_def], of world0 None]
  show ?thesis
    by (simp add: a_def b_def)
qed

end
